theory Spec2Isabelle
  imports Complex_Main "HOL-Library.List_Lexorder"
begin

section \<open>Relevance boost engine (core/intelligence.py)\<close>

text \<open>
  The scores of the boost engine are Python floats. They are modelled as real numbers:
  the properties below rest on the order of the numbers and on the final \<open>min\<close> of the
  code, not on rounding.
\<close>

datatype StatusType = COMPLETED | IN_PROGRESS | PENDING | PLANNING | UNKNOWN

text \<open>
  The dataclasses \<open>StatusInfo\<close>, \<open>TemporalContext\<close>, \<open>PriorityKeyword\<close> and
  \<open>PriorityMarkers\<close>. The list fields \<open>checkbox_indicators\<close> and \<open>time_markers\<close> hold
  records that no function modelled here reads; they are kept as lists of their texts.
\<close>

record StatusInfo =
  status_type :: StatusType
  completion_percentage :: "real option"
  checkbox_indicators :: "string list"
  progress_markers :: "string list"
  status_confidence :: real

record TemporalContext =
  time_markers :: "string list"
  current_relevance :: real
  phase_context :: "string option"
  urgency_score :: real

record PriorityKeyword =
  keyword :: string
  boost_multiplier :: real
  keyword_context :: string
  confidence :: real

record PriorityMarkers =
  priority_keywords :: "PriorityKeyword list"
  business_hierarchy_level :: int
  client_relevance_score :: real
  urgency_indicators :: "string list"

text \<open>
  The part of the configuration that the boost reads:
  \<open>config.get('intelligence', {}).get('boost_cap', 3.0)\<close>. Either dictionary level may
  be absent.
\<close>

record IntelligenceConfig =
  boost_cap :: "real option"

record Config =
  intelligence :: "IntelligenceConfig option"

text \<open>Python's \<open>max\<close> over a non-empty sequence.\<close>

fun py_max :: "real list \<Rightarrow> real" where
  "py_max [] = 0"
| "py_max [x] = x"
| "py_max (x # y # ys) = max x (py_max (y # ys))"

text \<open>\<open>hierarchy_boosts = {1: 1.3, 2: 1.1, 3: 1.0}\<close> read with \<open>.get(level, 1.0)\<close>.\<close>

definition hierarchy_boosts_get :: "int \<Rightarrow> real" where
  "hierarchy_boosts_get level =
     (if level = 1 then 1.3 else if level = 2 then 1.1 else if level = 3 then 1.0 else 1.0)"

definition calculate_priority_multiplier :: "PriorityMarkers \<Rightarrow> real" where
  "calculate_priority_multiplier pm =
     (let base0 = (1::real);
          base1 = (if priority_keywords pm \<noteq> []
                   then base0 * py_max (map (\<lambda>k. boost_multiplier k * confidence k)
                                         (priority_keywords pm))
                   else base0);
          base2 = base1 * hierarchy_boosts_get (business_hierarchy_level pm);
          base3 = (if client_relevance_score pm > 1.0
                   then base2 * min 1.5 (client_relevance_score pm)
                   else base2);
          base4 = (if urgency_indicators pm \<noteq> []
                   then base3 * min 1.3 (1.0 + real (length (urgency_indicators pm)) * 0.1)
                   else base3);
          intelligence_boost_cap = (3.0::real)
      in min intelligence_boost_cap base4)"

definition configured_boost_cap :: "Config \<Rightarrow> real" where
  "configured_boost_cap cfg =
     (case intelligence cfg of
        None \<Rightarrow> 3.0
      | Some ic \<Rightarrow> (case boost_cap ic of None \<Rightarrow> 3.0 | Some c \<Rightarrow> c))"

definition status_boost :: "StatusType \<Rightarrow> real" where
  "status_boost st =
     (if st = IN_PROGRESS then 1.4
      else if st = PENDING then 1.2
      else if st = COMPLETED then 0.8
      else 1.0)"

definition calculate_overall_boost ::
  "Config \<Rightarrow> StatusInfo \<Rightarrow> TemporalContext \<Rightarrow> PriorityMarkers \<Rightarrow> real" where
  "calculate_overall_boost cfg status_info temporal_context priority_markers =
     (let boost0 = 1.0 * status_boost (status_type status_info);
          boost1 = boost0 * (1.0 + current_relevance temporal_context * 0.5);
          boost2 = boost1 * (1.0 + urgency_score temporal_context * 0.3);
          priority_multiplier = calculate_priority_multiplier priority_markers;
          boost3 = boost2 * priority_multiplier;
          max_boost = configured_boost_cap cfg
      in min max_boost boost3)"

section \<open>Chunks and citations (core/chunker.py)\<close>

text \<open>
  A Python \<open>str\<close> is a sequence of Unicode code points. The strings whose characters the
  code inspects or puts together (the text of documents and chunks, headers, paths,
  queries) are modelled as lists of code points, the type \<open>pystr\<close>; \<open>py_str\<close> gives the
  code points of an ASCII literal. Identifiers that the code only compares (chunk ids,
  content hashes, dictionary keys, tags, exception messages) are HOL strings.
\<close>

type_synonym pystr = "nat list"

definition code_point :: "char \<Rightarrow> nat" where
  "code_point c = of_char c"

definition py_str :: "string \<Rightarrow> pystr" where
  "py_str s = map code_point s"

text \<open>
  The three size categories, the red, yellow and green circle of the source, and the
  values a metadata dictionary holds.
\<close>

datatype size_category = Red | Yellow | Green

datatype meta_value = MStr pystr | MInt int | MReal real

definition category_emoji :: "size_category \<Rightarrow> pystr" where
  "category_emoji c =
     (case c of
        Red \<Rightarrow> [0x1F534]
      | Yellow \<Rightarrow> [0x1F7E1]
      | Green \<Rightarrow> [0x1F7E2])"

record Chunk =
  chunk_id :: string
  document_path :: pystr
  section_header :: pystr
  content :: pystr
  navigation_path :: pystr
  start_line :: int
  end_line :: int
  metadata :: "(string \<times> meta_value) list"

subsection \<open>String operations of Python\<close>

text \<open>\<open>s.startswith(p)\<close>.\<close>

definition py_startswith :: "'a list \<Rightarrow> 'a list \<Rightarrow> bool" where
  "py_startswith s p = (take (length p) s = p)"

text \<open>
  \<open>s.replace(old, new)\<close>: the occurrences of \<open>old\<close> are replaced from left to right,
  without overlap; an empty \<open>old\<close> matches before every character and at the end.
\<close>

function py_replace :: "'a list \<Rightarrow> 'a list \<Rightarrow> 'a list \<Rightarrow> 'a list" where
  "py_replace old new [] = (if old = [] then new else [])"
| "py_replace old new (c # cs) =
     (if old = [] then new @ c # py_replace old new cs
      else if py_startswith (c # cs) old
      then new @ py_replace old new (drop (length old) (c # cs))
      else c # py_replace old new cs)"
  by pat_completeness auto
termination
  by (relation "measure (\<lambda>(old, new, s). length s)") auto

text \<open>
  \<open>str.lower\<close> is a function of the Python runtime, driven by the case mappings of the
  Unicode database. It is not part of the repository, and the functions that call it
  take it as a parameter \<open>lower\<close>.
\<close>

definition section_slug :: "(pystr \<Rightarrow> pystr) \<Rightarrow> Chunk \<Rightarrow> pystr" where
  "section_slug lower c =
     py_replace (py_str ''#'') []
       (py_replace (py_str '' '') (py_str ''-'') (lower (section_header c)))"

definition generate_citation :: "(pystr \<Rightarrow> pystr) \<Rightarrow> Chunk \<Rightarrow> pystr" where
  "generate_citation lower c = document_path c @ py_str ''#'' @ section_slug lower c"

text \<open>
  The citation as the specification words it: the path, a \<open>#\<close>, then the lowercased
  header in which each space is turned into a hyphen and each \<open>#\<close> is dropped. The code
  points are 32 for the space, 35 for \<open>#\<close> and 45 for the hyphen.
\<close>

definition spec_slug :: "pystr \<Rightarrow> pystr" where
  "spec_slug lowered = filter (\<lambda>c. c \<noteq> 35) (map (\<lambda>c. if c = 32 then 45 else c) lowered)"

definition spec_citation :: "(pystr \<Rightarrow> pystr) \<Rightarrow> Chunk \<Rightarrow> pystr" where
  "spec_citation lower c = document_path c @ [35] @ spec_slug (lower (section_header c))"

text \<open>The line feed.\<close>

definition NL :: nat where
  "NL = 10"

text \<open>
  The code points that \<open>str.split()\<close>, \<open>str.strip()\<close> and \<open>str.isspace()\<close> treat as
  whitespace: the ASCII controls \<open>0x09\<close> to \<open>0x0D\<close> and \<open>0x1C\<close> to \<open>0x1F\<close>, the space,
  \<open>U+0085\<close>, \<open>U+00A0\<close>, \<open>U+1680\<close>, \<open>U+2000\<close> to \<open>U+200A\<close>, \<open>U+2028\<close>, \<open>U+2029\<close>,
  \<open>U+202F\<close>, \<open>U+205F\<close> and \<open>U+3000\<close>.
\<close>

definition is_space :: "nat \<Rightarrow> bool" where
  "is_space n =
     ((0x09 \<le> n \<and> n \<le> 0x0D) \<or> (0x1C \<le> n \<and> n \<le> 0x1F) \<or> n = 0x20
      \<or> n = 0x85 \<or> n = 0xA0 \<or> n = 0x1680 \<or> (0x2000 \<le> n \<and> n \<le> 0x200A)
      \<or> n = 0x2028 \<or> n = 0x2029 \<or> n = 0x202F \<or> n = 0x205F \<or> n = 0x3000)"

text \<open>\<open>s.split(sep)\<close> for a separator of one character: never an empty list.\<close>

fun py_split_char :: "'a \<Rightarrow> 'a list \<Rightarrow> 'a list list" where
  "py_split_char sep [] = [[]]"
| "py_split_char sep (c # cs) =
     (if c = sep then [] # py_split_char sep cs
      else (case py_split_char sep cs of
              [] \<Rightarrow> [[c]]
            | l # ls \<Rightarrow> (c # l) # ls))"

text \<open>
  \<open>s.split()\<close>: the maximal runs of non-whitespace characters. \<open>split_ws cur s\<close> reads
  \<open>s\<close> with the word \<open>cur\<close> begun so far.
\<close>

fun split_ws :: "pystr \<Rightarrow> pystr \<Rightarrow> pystr list" where
  "split_ws cur [] = (if cur = [] then [] else [cur])"
| "split_ws cur (c # cs) =
     (if is_space c then (if cur = [] then split_ws [] cs else cur # split_ws [] cs)
      else split_ws (cur @ [c]) cs)"

definition py_split :: "pystr \<Rightarrow> pystr list" where
  "py_split s = split_ws [] s"

definition py_strip :: "pystr \<Rightarrow> pystr" where
  "py_strip s = rev (dropWhile is_space (rev (dropWhile is_space s)))"

text \<open>\<open>sep.join(xs)\<close>.\<close>

fun py_join :: "'a list \<Rightarrow> 'a list list \<Rightarrow> 'a list" where
  "py_join sep [] = []"
| "py_join sep [x] = x"
| "py_join sep (x # y # ys) = x @ sep @ py_join sep (y # ys)"

text \<open>
  The slice \<open>xs[i:j]\<close>: a negative index counts from the end, and both indices are
  clamped to the list.
\<close>

definition py_index :: "nat \<Rightarrow> int \<Rightarrow> nat" where
  "py_index n i = (if i < 0 then nat (max 0 (i + int n)) else min (nat i) n)"

definition py_slice :: "'a list \<Rightarrow> int \<Rightarrow> int \<Rightarrow> 'a list" where
  "py_slice xs i j =
     (let a = py_index (length xs) i; b = py_index (length xs) j
      in take (b - a) (drop a xs))"

text \<open>\<open>str(n)\<close> for a natural number, in decimal; 48 is the code point of the digit 0.\<close>

definition digit_char :: "nat \<Rightarrow> nat" where
  "digit_char d = 48 + d"

fun str_nat_fuel :: "nat \<Rightarrow> nat \<Rightarrow> pystr" where
  "str_nat_fuel 0 n = [digit_char (n mod 10)]"
| "str_nat_fuel (Suc k) n =
     (if n < 10 then [digit_char n]
      else str_nat_fuel k (n div 10) @ [digit_char (n mod 10)])"

definition str_nat :: "nat \<Rightarrow> pystr" where
  "str_nat n = str_nat_fuel n n"

subsection \<open>Documents, the chunker and its size tiers\<close>

record Document =
  file_path :: pystr
  doc_content :: pystr
  size_category :: size_category
  line_count :: int
  doc_metadata :: "(string \<times> meta_value) list"

text \<open>
  The tokenizer of the optional token-based policy is an external collaborator, given
  by its two operations.
\<close>

record Tokenizer =
  tokenize :: "pystr \<Rightarrow> pystr list"
  convert_tokens_to_string :: "pystr list \<Rightarrow> pystr"

text \<open>
  The attributes of \<open>MemoryBankChunker\<close> set by \<open>__init__\<close>. The compiled
  \<open>section_regex\<close> is used only through \<open>section_regex.match(line)\<close>, and is given as
  that predicate on lines. \<open>chunk_id_hash path header start\<close> stands for the first twelve
  hexadecimal digits of the MD5 digest of \<open>path:header:start\<close>.
\<close>

record MemoryBankChunker =
  chunk_size :: int
  chunk_overlap :: int
  section_regex :: "pystr \<Rightarrow> bool"
  small_threshold :: int
  medium_threshold :: int
  use_token_based :: bool
  max_tokens_per_chunk :: int
  executive_summary_lines :: int
  section_preview_lines :: int
  tokenizer :: "Tokenizer option"
  chunk_id_hash :: "pystr \<Rightarrow> pystr \<Rightarrow> int \<Rightarrow> string"

definition categorize_document :: "MemoryBankChunker \<Rightarrow> pystr \<Rightarrow> size_category \<times> int" where
  "categorize_document self content' =
     (let lines = py_split_char NL content';
          line_count' = int (length lines)
      in if line_count' > medium_threshold self then (Red, line_count')
         else if line_count' > small_threshold self then (Yellow, line_count')
         else (Green, line_count'))"

subsection \<open>Windows over words or tokens\<close>

text \<open>
  The \<open>while\<close> loop shared by \<open>_chunk_text_by_words\<close> and \<open>_chunk_text_by_tokens\<close>:
  \<open>render\<close> turns a window into its text (\<open>' '.join\<close>, or the tokenizer's
  \<open>convert_tokens_to_string\<close>). The loop may run forever, so its result is an option:
  \<open>None\<close> is a loop that does not return.
\<close>

definition window_end :: "int \<Rightarrow> 'a list \<Rightarrow> int \<Rightarrow> int" where
  "window_end max_chunk_size words start = min (start + max_chunk_size) (int (length words))"

definition next_start :: "int \<Rightarrow> int \<Rightarrow> 'a list \<Rightarrow> int \<Rightarrow> int" where
  "next_start max_chunk_size overlap words start =
     (if window_end max_chunk_size words start < int (length words)
      then window_end max_chunk_size words start - overlap
      else window_end max_chunk_size words start)"

partial_function (option) window_loop ::
  "('a list \<Rightarrow> pystr) \<Rightarrow> int \<Rightarrow> int \<Rightarrow> 'a list \<Rightarrow> int \<Rightarrow> pystr list
     \<Rightarrow> pystr list option" where
  "window_loop render max_chunk_size overlap words start chunks =
     (if start < int (length words)
      then window_loop render max_chunk_size overlap words
             (next_start max_chunk_size overlap words start)
             (chunks @ [render (py_slice words start
                                  (window_end max_chunk_size words start))])
      else Some chunks)"

declare window_loop.simps [code]

definition chunk_text_by_words :: "pystr \<Rightarrow> int \<Rightarrow> int \<Rightarrow> pystr list option" where
  "chunk_text_by_words text max_chunk_size overlap =
     (if text = [] \<or> py_strip text = [] then Some []
      else (let words = py_split text
            in if int (length words) \<le> max_chunk_size then Some [text]
               else window_loop (py_join (py_str '' '')) max_chunk_size overlap words 0 []))"

definition chunk_text_by_tokens ::
  "Tokenizer \<Rightarrow> pystr \<Rightarrow> int \<Rightarrow> int \<Rightarrow> pystr list option" where
  "chunk_text_by_tokens tok text max_chunk_size overlap =
     (if text = [] \<or> py_strip text = [] then Some []
      else (let tokens = tokenize tok text
            in if int (length tokens) \<le> max_chunk_size then Some [text]
               else window_loop (convert_tokens_to_string tok) max_chunk_size overlap
                      tokens 0 []))"

definition chunk_text :: "MemoryBankChunker \<Rightarrow> pystr \<Rightarrow> int \<Rightarrow> int \<Rightarrow> pystr list option" where
  "chunk_text self text max_chunk_size overlap =
     (case (use_token_based self, tokenizer self) of
        (True, Some tok) \<Rightarrow> chunk_text_by_tokens tok text max_chunk_size overlap
      | _ \<Rightarrow> chunk_text_by_words text max_chunk_size overlap)"

subsection \<open>Sections\<close>

record Section =
  header :: pystr
  sec_content :: pystr
  sec_start_line :: int
  sec_end_line :: int

text \<open>
  The loop of \<open>_extract_sections\<close> over the numbered lines. Its state is the list of
  finished sections, the open section (its header and first line number) if any, and the
  lines gathered for it.
\<close>

fun extract_loop ::
  "(pystr \<Rightarrow> bool) \<Rightarrow> (nat \<times> pystr) list \<Rightarrow> Section list \<Rightarrow> (pystr \<times> int) option
     \<Rightarrow> pystr list \<Rightarrow> Section list \<times> (pystr \<times> int) option \<times> pystr list" where
  "extract_loop is_header [] sections current_section current_content =
     (sections, current_section, current_content)"
| "extract_loop is_header ((i, line) # rest) sections current_section current_content =
     (if is_header line
      then extract_loop is_header rest
             (case current_section of
                None \<Rightarrow> sections
              | Some (h, s) \<Rightarrow>
                  sections @ [\<lparr>header = h, sec_content = py_join [NL] current_content,
                                sec_start_line = s, sec_end_line = int i - 1\<rparr>])
             (Some (py_strip line, int i)) [line]
      else if current_section \<noteq> None
      then extract_loop is_header rest sections current_section (current_content @ [line])
      else extract_loop is_header rest sections current_section current_content)"

definition extract_sections :: "MemoryBankChunker \<Rightarrow> pystr \<Rightarrow> Section list" where
  "extract_sections self content' =
     (let lines = py_split_char NL content'
      in case extract_loop (section_regex self) (enumerate 0 lines) [] None [] of
           (sections, current_section, current_content) \<Rightarrow>
             (case current_section of
                None \<Rightarrow> sections
              | Some (h, s) \<Rightarrow>
                  sections @ [\<lparr>header = h, sec_content = py_join [NL] current_content,
                                sec_start_line = s,
                                sec_end_line = int (length lines) - 1\<rparr>]))"

subsection \<open>Chunks of a document\<close>

text \<open>The arrow of the navigation path, \<open>U+2192\<close>.\<close>

definition arrow :: pystr where
  "arrow = [0x2192]"

definition build_navigation_path :: "pystr \<Rightarrow> pystr \<Rightarrow> pystr" where
  "build_navigation_path file_path' section_header' =
     (if section_header' = py_str ''Executive Summary''
      then file_path' @ py_str '' '' @ arrow @ py_str '' Executive Summary''
      else file_path' @ py_str '' '' @ arrow @ py_str '' '' @ section_header')"

definition create_chunk ::
  "MemoryBankChunker \<Rightarrow> Document \<Rightarrow> pystr \<Rightarrow> pystr \<Rightarrow> int \<Rightarrow> int \<Rightarrow> Chunk" where
  "create_chunk self doc content' section_header' start_line' end_line' =
     \<lparr>chunk_id = chunk_id_hash self (file_path doc) section_header' start_line',
      document_path = file_path doc,
      section_header = section_header',
      content = content',
      navigation_path = build_navigation_path (file_path doc) section_header',
      start_line = start_line',
      end_line = end_line',
      metadata = [(''size_category'', MStr (category_emoji (size_category doc))),
                  (''line_count'', MInt (line_count doc)),
                  (''file_path'', MStr (file_path doc))]\<rparr>"

text \<open>The header of part \<open>i\<close> (counted from 0) of a section cut into \<open>n\<close> windows.\<close>

definition part_header :: "pystr \<Rightarrow> nat \<Rightarrow> nat \<Rightarrow> pystr" where
  "part_header h i n =
     (if n > 1
      then h @ py_str '' (Part '' @ str_nat (i + 1) @ py_str ''/'' @ str_nat n @ py_str '')''
      else h)"

definition section_chunks :: "MemoryBankChunker \<Rightarrow> Document \<Rightarrow> Section \<Rightarrow> Chunk list option" where
  "section_chunks self doc section =
     (case chunk_text self (sec_content section) (chunk_size self) (chunk_overlap self) of
        None \<Rightarrow> None
      | Some scs \<Rightarrow>
          Some (map (\<lambda>(i, chunk_content).
                       create_chunk self doc chunk_content
                         (part_header (header section) i (length scs))
                         (sec_start_line section) (sec_end_line section))
                  (enumerate 0 scs)))"

fun chunk_sections :: "MemoryBankChunker \<Rightarrow> Document \<Rightarrow> Section list \<Rightarrow> Chunk list option" where
  "chunk_sections self doc [] = Some []"
| "chunk_sections self doc (section # sections) =
     (case section_chunks self doc section of
        None \<Rightarrow> None
      | Some cs \<Rightarrow>
          (case chunk_sections self doc sections of
             None \<Rightarrow> None
           | Some rest \<Rightarrow> Some (cs @ rest)))"

definition chunk_large_file :: "MemoryBankChunker \<Rightarrow> Document \<Rightarrow> Chunk list" where
  "chunk_large_file self doc =
     (let lines = py_split_char NL (doc_content doc);
          exec_summary_lines =
            takeWhile (\<lambda>line. \<not> py_startswith line (py_str ''## ''))
              (py_slice lines 0 (executive_summary_lines self));
          chunks0 =
            (if exec_summary_lines \<noteq> []
             then [create_chunk self doc (py_join [NL] exec_summary_lines)
                     (py_str ''Executive Summary'') 0 (int (length exec_summary_lines))]
             else []);
          sections = extract_sections self (doc_content doc)
      in chunks0 @
         map (\<lambda>section.
                create_chunk self doc
                  (header section @ [NL] @
                   py_join [NL]
                     (py_slice (py_split_char NL (sec_content section)) 0
                        (section_preview_lines self)))
                  (header section) (sec_start_line section) (sec_start_line section + 5))
           sections)"

definition chunk_medium_file :: "MemoryBankChunker \<Rightarrow> Document \<Rightarrow> Chunk list option" where
  "chunk_medium_file self doc = chunk_sections self doc (extract_sections self (doc_content doc))"

definition chunk_small_file :: "MemoryBankChunker \<Rightarrow> Document \<Rightarrow> Chunk list option" where
  "chunk_small_file self doc =
     (let sections = extract_sections self (doc_content doc)
      in if sections = []
         then (case chunk_text self (doc_content doc) (chunk_size self) (chunk_overlap self) of
                 None \<Rightarrow> None
               | Some text_chunks \<Rightarrow>
                   Some (map (\<lambda>(i, chunk_content).
                                create_chunk self doc chunk_content
                                  (py_str ''Content Part '' @ str_nat (i + 1)) 0 (line_count doc))
                           (enumerate 0 text_chunks)))
         else chunk_sections self doc sections)"

definition chunk_document :: "MemoryBankChunker \<Rightarrow> pystr \<Rightarrow> pystr \<Rightarrow> Chunk list option" where
  "chunk_document self file_path' content' =
     (case categorize_document self content' of
        (size_category', line_count') \<Rightarrow>
          (let doc = \<lparr>file_path = file_path', doc_content = content',
                      size_category = size_category', line_count = line_count',
                      doc_metadata = [(''file_path'', MStr file_path')]\<rparr>
           in if size_category' = Red then Some (chunk_large_file self doc)
              else if size_category' = Yellow then chunk_medium_file self doc
              else chunk_small_file self doc))"

subsection \<open>Coverage of a document by its chunks\<close>

text \<open>
  Notions used to state what the chunks of a document cover. Two texts are equal up to
  whitespace when \<open>py_split\<close> gives the same words for both. \<open>windows m ov xs\<close> are the
  windows of at most \<open>m\<close> items, each starting \<open>m - ov\<close> items after the one before,
  that cover \<open>xs\<close>; \<open>merge_windows ov ws\<close> puts windows together again, dropping from each
  window after the first the \<open>ov\<close> items it repeats.
\<close>

function windows :: "nat \<Rightarrow> nat \<Rightarrow> 'a list \<Rightarrow> 'a list list" where
  "windows m ov xs =
     (if xs = [] \<or> m \<le> ov then []
      else if length xs \<le> m then [xs]
      else take m xs # windows m ov (drop (m - ov) xs))"
  by pat_completeness auto
termination
  by (relation "measure (\<lambda>(m, ov, xs). length xs)") auto

declare windows.simps [simp del]



text \<open>
  A chunker for worked examples: the header pattern \<open>^##\s+\<close> of the repository's
  configurations, word-based windows of at most three words that overlap by one, and
  the tier thresholds 400 and 600.
\<close>

definition h2_header :: "pystr \<Rightarrow> bool" where
  "h2_header line =
     (case line of
        a # b # c # rest \<Rightarrow> a = 35 \<and> b = 35 \<and> is_space c
      | _ \<Rightarrow> False)"

definition example_hash :: "pystr \<Rightarrow> pystr \<Rightarrow> int \<Rightarrow> string" where
  "example_hash path header' start = map char_of (path @ py_str '':'' @ header')"

definition example_chunker :: MemoryBankChunker where
  "example_chunker =
     \<lparr>chunk_size = 3, chunk_overlap = 1, section_regex = h2_header,
      small_threshold = 400, medium_threshold = 600, use_token_based = False,
      max_tokens_per_chunk = 512, executive_summary_lines = 100,
      section_preview_lines = 5, tokenizer = None, chunk_id_hash = example_hash\<rparr>"




section \<open>Hybrid search (core/searcher.py)\<close>

record IntelligenceMetadata =
  status_info :: StatusInfo
  temporal_context :: TemporalContext
  priority_markers :: PriorityMarkers
  overall_boost :: real

record SearchResult =
  chunk :: Chunk
  score :: real
  relevance_type :: string
  citation :: pystr
  intelligence_metadata :: "IntelligenceMetadata option"
  enhanced_score :: real

text \<open>
  The constructor \<open>SearchResult(chunk, score, relevance_type)\<close>; it calls
  \<open>generate_citation\<close>, hence the parameter \<open>lower\<close>.
\<close>

definition new_SearchResult ::
  "(pystr \<Rightarrow> pystr) \<Rightarrow> Chunk \<Rightarrow> real \<Rightarrow> string \<Rightarrow> SearchResult" where
  "new_SearchResult lower c s t =
     \<lparr>chunk = c, score = s, relevance_type = t, citation = generate_citation lower c,
      intelligence_metadata = None, enhanced_score = s\<rparr>"

subsection \<open>Dictionaries\<close>

text \<open>
  A Python dictionary keeps its keys in insertion order. It is modelled as an association
  list: assigning to a key that is present replaces the value in place, assigning to a
  new key appends.
\<close>

definition dict_has :: "('k \<times> 'v) list \<Rightarrow> 'k \<Rightarrow> bool" where
  "dict_has d k = (k \<in> set (map fst d))"

definition dict_modify :: "'k \<Rightarrow> ('v \<Rightarrow> 'v) \<Rightarrow> ('k \<times> 'v) list \<Rightarrow> ('k \<times> 'v) list" where
  "dict_modify k f d = map (\<lambda>(k', v). if k' = k then (k', f v) else (k', v)) d"

definition dict_set :: "'k \<Rightarrow> 'v \<Rightarrow> ('k \<times> 'v) list \<Rightarrow> ('k \<times> 'v) list" where
  "dict_set k v d = (if dict_has d k then dict_modify k (\<lambda>_. v) d else d @ [(k, v)])"

definition dict_keys :: "('k \<times> 'v) list \<Rightarrow> 'k list" where
  "dict_keys d = remdups (map fst d)"

subsection \<open>Score fusion\<close>

text \<open>
  The two loops of \<open>_combine_results\<close>, one step each. The source updates the result
  objects in place; the results of the two legs are distinct objects, so the model
  passes them by value.
\<close>

definition add_semantic_result ::
  "real \<Rightarrow> (string \<times> SearchResult) list \<Rightarrow> SearchResult \<Rightarrow> (string \<times> SearchResult) list" where
  "add_semantic_result alpha combined_map result =
     (if \<not> dict_has combined_map (chunk_id (chunk result))
      then combined_map @ [(chunk_id (chunk result), result\<lparr>score := score result * alpha\<rparr>)]
      else dict_modify (chunk_id (chunk result))
             (\<lambda>r. r\<lparr>score := score r + score result * alpha\<rparr>) combined_map)"

definition add_keyword_result ::
  "real \<Rightarrow> (string \<times> SearchResult) list \<Rightarrow> SearchResult \<Rightarrow> (string \<times> SearchResult) list" where
  "add_keyword_result alpha combined_map result =
     (if \<not> dict_has combined_map (chunk_id (chunk result))
      then combined_map @
             [(chunk_id (chunk result),
               result\<lparr>score := score result * (1 - alpha), relevance_type := ''keyword''\<rparr>)]
      else dict_modify (chunk_id (chunk result))
             (\<lambda>r. r\<lparr>score := score r + score result * (1 - alpha),
                     relevance_type := ''hybrid''\<rparr>) combined_map)"

definition combine_results ::
  "SearchResult list \<Rightarrow> SearchResult list \<Rightarrow> real \<Rightarrow> SearchResult list" where
  "combine_results semantic_results keyword_results alpha =
     map snd (foldl (add_keyword_result alpha)
                (foldl (add_semantic_result alpha) [] semantic_results)
                keyword_results)"

text \<open>The result with a given chunk id in a result list, if any.\<close>

definition result_for :: "string \<Rightarrow> SearchResult list \<Rightarrow> SearchResult option" where
  "result_for cid rs = find (\<lambda>r. chunk_id (chunk r) = cid) rs"

definition result_ids :: "SearchResult list \<Rightarrow> string list" where
  "result_ids rs = map (\<lambda>r. chunk_id (chunk r)) rs"

text \<open>
  The entries of the fused map after the keyword loop, used to describe the loop's
  result: an entry already present absorbs the keyword result of its chunk, and a
  keyword result of a new chunk becomes a fresh entry.
\<close>

definition absorb_keyword ::
  "real \<Rightarrow> SearchResult list \<Rightarrow> string \<times> SearchResult \<Rightarrow> string \<times> SearchResult" where
  "absorb_keyword alpha kw e =
     (case result_for (fst e) kw of
        None \<Rightarrow> e
      | Some k \<Rightarrow> (fst e, (snd e)\<lparr>score := score (snd e) + score k * (1 - alpha),
                                  relevance_type := ''hybrid''\<rparr>))"

definition fresh_keyword :: "real \<Rightarrow> SearchResult \<Rightarrow> string \<times> SearchResult" where
  "fresh_keyword alpha k =
     (chunk_id (chunk k), k\<lparr>score := score k * (1 - alpha), relevance_type := ''keyword''\<rparr>)"

text \<open>
  Chunks and results for worked examples; \<open>example_lower\<close> is \<open>str.lower\<close> on ASCII text.
\<close>

definition example_lower :: "pystr \<Rightarrow> pystr" where
  "example_lower s = map (\<lambda>c. if 65 \<le> c \<and> c \<le> 90 then c + 32 else c) s"

definition example_chunk :: "string \<Rightarrow> string \<Rightarrow> Chunk" where
  "example_chunk cid text =
     \<lparr>chunk_id = cid, document_path = py_str ''notes.md'',
      section_header = py_str ''## My Notes'', content = py_str text,
      navigation_path = py_str ''notes.md'', start_line = 0, end_line = 1,
      metadata = []\<rparr>"

definition example_semantic :: "string \<Rightarrow> real \<Rightarrow> SearchResult" where
  "example_semantic cid s =
     new_SearchResult example_lower (example_chunk cid ''text'') s ''semantic''"

definition example_keyword :: "string \<Rightarrow> real \<Rightarrow> SearchResult" where
  "example_keyword cid s =
     new_SearchResult example_lower (example_chunk cid ''text'') s ''keyword''"

subsection \<open>The searcher and the vector index\<close>

text \<open>
  The exceptions of the searcher: the \<open>ValueError\<close> of the two guards
  (``Collection not initialized. Call create_or_load_collection first.''), and any
  other exception, raised by a collaborator, with its message.
\<close>

datatype search_error = CollectionNotInitialized | OtherException string

record Domain =
  files :: "pystr list"
  boost :: real
  keywords' :: "pystr list"

datatype where_value = WhereEq pystr | WhereOr "pystr list" | WhereFilter meta_value

datatype index_call = Added "string list" | Deleted "string list"

text \<open>
  The vector index is an external collaborator. Its collections have the type \<open>'c\<close>;
  each operation returns its result or, when it raises, \<open>Inl\<close> of the message. The rows
  that \<open>query\<close> and \<open>get\<close> return are given as the chunks the source rebuilds from them
  (with each row's metadata as the chunk's metadata), for \<open>query\<close> with the distance.
  \<open>collection_get_ids c path\<close> is \<open>get(where = {document_path: path})['ids']\<close>.
\<close>

record 'c VectorIndex =
  get_collection :: "string \<Rightarrow> string + 'c"
  create_collection :: "string \<Rightarrow> string + 'c"
  collection_add ::
    "'c \<Rightarrow> string list \<Rightarrow> real list option list \<Rightarrow> pystr list
       \<Rightarrow> (string \<times> meta_value) list list \<Rightarrow> string + 'c"
  collection_query ::
    "'c \<Rightarrow> real list \<Rightarrow> int \<Rightarrow> (string \<times> where_value) list option
       \<Rightarrow> string + (Chunk \<times> real) list"
  collection_get :: "'c \<Rightarrow> int \<Rightarrow> string + Chunk list"
  collection_get_ids :: "'c \<Rightarrow> pystr \<Rightarrow> string + string list"
  collection_delete :: "'c \<Rightarrow> string list \<Rightarrow> string + 'c"

text \<open>
  The attributes of \<open>HybridSearcher\<close>. The embedder's \<open>embed_query\<close> and the
  intelligence processor's \<open>process_chunk_intelligence\<close> are collaborators, given as
  functions that return a value or raise, and \<open>str_lower\<close> is \<open>str.lower\<close> of the Python
  runtime. The field \<open>index_calls\<close> is not in the source: it records the insertions and
  deletions made on the collection.
\<close>

record 'c HybridSearcher =
  chroma_client :: "'c VectorIndex"
  embedder_embed_query :: "pystr \<Rightarrow> string + real list"
  process_chunk_intelligence :: "pystr \<Rightarrow> pystr \<Rightarrow> string + IntelligenceMetadata"
  str_lower :: "pystr \<Rightarrow> pystr"
  collection :: "'c option"
  domains :: "(string \<times> Domain) list"
  top_k :: int
  relevance_threshold :: real
  hybrid_alpha :: real
  intelligence_enabled :: bool
  index_calls :: "index_call list"

text \<open>\<open>__init__\<close>: the collection starts as \<open>None\<close>.\<close>

definition init_HybridSearcher ::
  "'c VectorIndex \<Rightarrow> (pystr \<Rightarrow> string + real list)
     \<Rightarrow> (pystr \<Rightarrow> pystr \<Rightarrow> string + IntelligenceMetadata) \<Rightarrow> (pystr \<Rightarrow> pystr)
     \<Rightarrow> (string \<times> Domain) list \<Rightarrow> int \<Rightarrow> real \<Rightarrow> real \<Rightarrow> bool \<Rightarrow> 'c HybridSearcher" where
  "init_HybridSearcher client embed_query' intelligence' lower domains' top_k' threshold alpha
     enabled =
     \<lparr>chroma_client = client, embedder_embed_query = embed_query',
      process_chunk_intelligence = intelligence', str_lower = lower, collection = None,
      domains = domains',
      top_k = top_k', relevance_threshold = threshold, hybrid_alpha = alpha,
      intelligence_enabled = enabled, index_calls = []\<rparr>"

definition create_or_load_collection ::
  "'c HybridSearcher \<Rightarrow> string \<Rightarrow> search_error + 'c HybridSearcher" where
  "create_or_load_collection self collection_name =
     (case get_collection (chroma_client self) collection_name of
        Inr c \<Rightarrow> Inr (self\<lparr>collection := Some c\<rparr>)
      | Inl e \<Rightarrow>
          (case create_collection (chroma_client self) collection_name of
             Inr c \<Rightarrow> Inr (self\<lparr>collection := Some c\<rparr>)
           | Inl e' \<Rightarrow> Inl (OtherException e')))"

definition status_value :: "StatusType \<Rightarrow> pystr" where
  "status_value st =
     (case st of
        COMPLETED \<Rightarrow> py_str ''completed''
      | IN_PROGRESS \<Rightarrow> py_str ''in_progress''
      | PENDING \<Rightarrow> py_str ''pending''
      | PLANNING \<Rightarrow> py_str ''planning''
      | UNKNOWN \<Rightarrow> py_str ''unknown'')"

definition dict_update :: "('k \<times> 'v) list \<Rightarrow> ('k \<times> 'v) list \<Rightarrow> ('k \<times> 'v) list" where
  "dict_update d entries = foldl (\<lambda>d' (k, v). dict_set k v d') d entries"

definition base_metadata :: "Chunk \<Rightarrow> (string \<times> meta_value) list" where
  "base_metadata c =
     [(''document_path'', MStr (document_path c)),
      (''section_header'', MStr (section_header c)),
      (''navigation_path'', MStr (navigation_path c)),
      (''start_line'', MInt (start_line c)),
      (''end_line'', MInt (end_line c)),
      (''size_category'',
         (case map_of (metadata c) ''size_category'' of
            None \<Rightarrow> MStr (category_emoji Green)
          | Some v \<Rightarrow> v))]"

definition intelligence_fields ::
  "'c HybridSearcher \<Rightarrow> Chunk \<Rightarrow> (string \<times> meta_value) list \<Rightarrow> (string \<times> meta_value) list" where
  "intelligence_fields self c md =
     (case process_chunk_intelligence self (content c) (document_path c) of
        Inl e \<Rightarrow> dict_set ''intelligence_boost'' (MReal 1.0) md
      | Inr im \<Rightarrow>
          dict_update md
            [(''intelligence_boost'', MReal (overall_boost im)),
             (''status_type'', MStr (status_value (status_type (status_info im)))),
             (''current_relevance'', MReal (current_relevance (temporal_context im))),
             (''urgency_score'', MReal (urgency_score (temporal_context im))),
             (''priority_level'', MInt (business_hierarchy_level (priority_markers im)))])"

definition add_chunks ::
  "'c HybridSearcher \<Rightarrow> Chunk list \<Rightarrow> real list option list
     \<Rightarrow> search_error + 'c HybridSearcher" where
  "add_chunks self chunks embeddings =
     (case collection self of
        None \<Rightarrow> Inl CollectionNotInitialized
      | Some coll \<Rightarrow>
          (let ids = map chunk_id chunks;
               documents = map content chunks;
               metadatas =
                 (if intelligence_enabled self
                  then map (\<lambda>c. intelligence_fields self c (base_metadata c)) chunks
                  else map base_metadata chunks)
           in case collection_add (chroma_client self) coll ids embeddings documents
                     metadatas of
                Inl e \<Rightarrow> Inl (OtherException e)
              | Inr coll' \<Rightarrow>
                  Inr (self\<lparr>collection := Some coll',
                              index_calls := index_calls self @ [Added ids]\<rparr>)))"

definition delete_document ::
  "'c HybridSearcher \<Rightarrow> pystr \<Rightarrow> search_error + 'c HybridSearcher" where
  "delete_document self document_path' =
     (case collection self of
        None \<Rightarrow> Inr self
      | Some coll \<Rightarrow>
          (case collection_get_ids (chroma_client self) coll document_path' of
             Inl e \<Rightarrow> Inl (OtherException e)
           | Inr ids \<Rightarrow>
               if ids \<noteq> []
               then (case collection_delete (chroma_client self) coll ids of
                       Inl e \<Rightarrow> Inl (OtherException e)
                     | Inr coll' \<Rightarrow>
                         Inr (self\<lparr>collection := Some coll',
                                     index_calls := index_calls self @ [Deleted ids]\<rparr>))
               else Inr self))"

subsection \<open>Search\<close>

text \<open>\<open>needle in haystack\<close> on strings.\<close>

fun py_in :: "'a list \<Rightarrow> 'a list \<Rightarrow> bool" where
  "py_in needle [] = (needle = [])"
| "py_in needle (c # cs) = (py_startswith (c # cs) needle \<or> py_in needle cs)"

definition sanitize_query :: "pystr \<Rightarrow> pystr" where
  "sanitize_query query =
     (if query = [] then []
      else (let sanitized0 =
                  filter (\<lambda>c. c \<notin> set (py_str ''<>'' @ [0x22, 0x27])) query;
                sanitized1 =
                  (if length sanitized0 > 1000 then take 1000 sanitized0 else sanitized0);
                sanitized2 = py_join (py_str '' '') (py_split sanitized1)
            in py_strip sanitized2))"

text \<open>The configuration of a domain when \<open>domain and domain in self.domains\<close> holds.\<close>

definition domain_entry :: "'c HybridSearcher \<Rightarrow> string option \<Rightarrow> Domain option" where
  "domain_entry self domain =
     (case domain of
        None \<Rightarrow> None
      | Some d \<Rightarrow> if d = [] then None else map_of (domains self) d)"

definition where_clause ::
  "'c HybridSearcher \<Rightarrow> string option \<Rightarrow> (string \<times> where_value) list option
     \<Rightarrow> (string \<times> where_value) list option" where
  "where_clause self domain filters =
     (let w0 = (case domain_entry self domain of
                  None \<Rightarrow> []
                | Some entry \<Rightarrow>
                    (case files entry of
                       [f] \<Rightarrow> [(''document_path'', WhereEq f)]
                     | fs \<Rightarrow> [(''$or'', WhereOr fs)]));
          w1 = (case filters of None \<Rightarrow> w0 | Some fs \<Rightarrow> dict_update w0 fs)
      in if w1 = [] then None else Some w1)"

definition semantic_search ::
  "'c HybridSearcher \<Rightarrow> 'c \<Rightarrow> pystr \<Rightarrow> string option \<Rightarrow> (string \<times> where_value) list option
     \<Rightarrow> search_error + SearchResult list" where
  "semantic_search self coll query domain filters =
     (case embedder_embed_query self query of
        Inl e \<Rightarrow> Inl (OtherException e)
      | Inr query_embedding \<Rightarrow>
          (case collection_query (chroma_client self) coll query_embedding (top_k self * 2)
                  (where_clause self domain filters) of
             Inl e \<Rightarrow> Inl (OtherException e)
           | Inr rows \<Rightarrow>
               Inr (map (\<lambda>(c, distance).
                           new_SearchResult (str_lower self) c (1.0 - distance) ''semantic'')
                      rows)))"

definition keyword_hit ::
  "(pystr \<Rightarrow> pystr) \<Rightarrow> pystr list \<Rightarrow> pystr list option \<Rightarrow> Chunk \<Rightarrow> SearchResult list" where
  "keyword_hit lower kws domain_files c =
     (if (case domain_files of
            None \<Rightarrow> False
          | Some fs \<Rightarrow> fs \<noteq> [] \<and> document_path c \<notin> set fs)
      then []
      else (let match_count = length (filter (\<lambda>k. py_in k (lower (content c))) kws)
            in if match_count > 0
               then [new_SearchResult lower c (real match_count / real (length kws))
                       ''keyword'']
               else []))"

definition keyword_search ::
  "'c HybridSearcher \<Rightarrow> pystr \<Rightarrow> string option \<Rightarrow> search_error + SearchResult list" where
  "keyword_search self query domain =
     (case collection self of
        None \<Rightarrow> Inr []
      | Some coll \<Rightarrow>
          (case collection_get (chroma_client self) coll 1000 of
             Inl e \<Rightarrow> Inl (OtherException e)
           | Inr rows \<Rightarrow>
               (let entry = domain_entry self domain;
                    kws = py_split (str_lower self query)
                                @ (case entry of None \<Rightarrow> [] | Some d \<Rightarrow> keywords' d);
                    domain_files = map_option files entry
                in Inr (concat (map (keyword_hit (str_lower self) kws domain_files) rows)))))"

definition apply_domain_boost ::
  "'c HybridSearcher \<Rightarrow> SearchResult list \<Rightarrow> string \<Rightarrow> SearchResult list" where
  "apply_domain_boost self results domain =
     (case map_of (domains self) domain of
        None \<Rightarrow> results
      | Some d \<Rightarrow>
          map (\<lambda>r. if list_ex (\<lambda>f. py_in f (document_path (chunk r))) (files d)
                    then r\<lparr>score := score r * boost d\<rparr>
                    else r) results)"

text \<open>
  The number a metadata value stands for in arithmetic and in an ordering comparison;
  \<open>None\<close> for a string, on which the source raises \<open>TypeError\<close>.
\<close>

definition meta_num :: "meta_value \<Rightarrow> real option" where
  "meta_num v = (case v of MReal x \<Rightarrow> Some x | MInt i \<Rightarrow> Some (real_of_int i) | MStr s \<Rightarrow> None)"

text \<open>Python's \<open>==\<close> on metadata values: \<open>1 == 1.0\<close> holds.\<close>

definition meta_eq :: "meta_value \<Rightarrow> meta_value \<Rightarrow> bool" where
  "meta_eq a b =
     (case (meta_num a, meta_num b) of
        (Some x, Some y) \<Rightarrow> x = y
      | _ \<Rightarrow> a = b)"

text \<open>
  Python's \<open><\<close> on metadata values: numbers by value, strings in lexicographic order,
  and \<open>TypeError\<close> (\<open>None\<close>) between a string and a number.
\<close>

definition meta_less :: "meta_value \<Rightarrow> meta_value \<Rightarrow> bool option" where
  "meta_less a b =
     (case (a, b) of
        (MStr x, MStr y) \<Rightarrow> Some (x < y)
      | _ \<Rightarrow>
          (case (meta_num a, meta_num b) of
             (Some x, Some y) \<Rightarrow> Some (x < y)
           | _ \<Rightarrow> None))"

definition meta_get :: "(string \<times> meta_value) list \<Rightarrow> string \<Rightarrow> meta_value \<Rightarrow> meta_value" where
  "meta_get md k dflt = (case map_of md k of None \<Rightarrow> dflt | Some v \<Rightarrow> v)"

definition any_term_in :: "string list \<Rightarrow> pystr \<Rightarrow> bool" where
  "any_term_in terms q = list_ex (\<lambda>t. py_in (py_str t) q) terms"

text \<open>\<open>_apply_query_specific_boost\<close>; \<open>None\<close> when the arithmetic raises.\<close>

definition apply_query_specific_boost ::
  "(pystr \<Rightarrow> pystr) \<Rightarrow> real \<Rightarrow> pystr \<Rightarrow> meta_value \<Rightarrow> meta_value \<Rightarrow> meta_value
     \<Rightarrow> real option" where
  "apply_query_specific_boost lower base_score query status_type' current_relevance'
     urgency_score' =
     (let query_lower = lower query;
          boost0 = Some base_score;
          boost1 =
            (if any_term_in [''current'', ''active'', ''now'', ''today''] query_lower
             then (case (boost0, meta_num current_relevance') of
                     (Some b, Some cr) \<Rightarrow>
                       Some ((if meta_eq status_type' (MStr (py_str ''in_progress'')) then b * 1.5 else b)
                             * (1.0 + cr * 0.5))
                   | _ \<Rightarrow> None)
             else boost0);
          boost2 =
            (if any_term_in [''urgent'', ''priority'', ''critical'', ''deadline''] query_lower
             then (case (boost1, meta_num urgency_score') of
                     (Some b, Some us) \<Rightarrow> Some (b * (1.0 + us * 0.7))
                   | _ \<Rightarrow> None)
             else boost1);
          boost3 =
            (if any_term_in [''andrew'', ''client'', ''engagement'', ''sprint''] query_lower
             then map_option (\<lambda>b. b * 1.3) boost2
             else boost2);
          boost4 =
            (if any_term_in [''completed'', ''done'', ''finished''] query_lower
             then map_option (\<lambda>b. if meta_eq status_type' (MStr (py_str ''completed'')) then b * 1.4 else b)
                    boost3
             else boost3)
      in boost4)"

text \<open>
  \<open>_passes_intelligence_filters\<close>; \<open>None\<close> when an ordering comparison raises. The
  tests run in the order of the source and stop at the first that fails: a chunk is
  excluded when its priority level is above the maximum, or its urgency or current
  relevance below the minimum.
\<close>

definition passes_intelligence_filters ::
  "(string \<times> meta_value) list \<Rightarrow> (string \<times> meta_value) list \<Rightarrow> bool option" where
  "passes_intelligence_filters chunk_metadata intelligence_filters =
     (let status_ok =
            (case map_of intelligence_filters ''status_type'' of
               None \<Rightarrow> Some True
             | Some required_status \<Rightarrow>
                 Some (meta_eq (meta_get chunk_metadata ''status_type'' (MStr (py_str ''unknown'')))
                         required_status));
          level_ok =
            (case map_of intelligence_filters ''max_priority_level'' of
               None \<Rightarrow> Some True
             | Some max_level \<Rightarrow>
                 map_option Not
                   (meta_less max_level (meta_get chunk_metadata ''priority_level'' (MInt 3))));
          urgency_ok =
            (case map_of intelligence_filters ''min_urgency_score'' of
               None \<Rightarrow> Some True
             | Some min_urgency \<Rightarrow>
                 map_option Not
                   (meta_less (meta_get chunk_metadata ''urgency_score'' (MReal 0.0))
                      min_urgency));
          relevance_ok =
            (case map_of intelligence_filters ''min_current_relevance'' of
               None \<Rightarrow> Some True
             | Some min_relevance \<Rightarrow>
                 map_option Not
                   (meta_less (meta_get chunk_metadata ''current_relevance'' (MReal 0.5))
                      min_relevance))
      in if status_ok \<noteq> Some True then status_ok
         else if level_ok \<noteq> Some True then level_ok
         else if urgency_ok \<noteq> Some True then urgency_ok
         else relevance_ok)"

text \<open>
  The body of the loop of \<open>_apply_intelligence_boost\<close> for one result: the result with
  its enhanced score, nothing when a filter excludes it, and the result with its
  unboosted score when the \<open>try\<close> block raises.
\<close>

definition boost_result ::
  "(pystr \<Rightarrow> pystr) \<Rightarrow> pystr \<Rightarrow> (string \<times> meta_value) list option \<Rightarrow> SearchResult
     \<Rightarrow> SearchResult list" where
  "boost_result lower query intelligence_filters result =
     (let chunk_metadata = metadata (chunk result);
          intelligence_boost = meta_get chunk_metadata ''intelligence_boost'' (MReal 1.0);
          status_type' = meta_get chunk_metadata ''status_type'' (MStr (py_str ''unknown''));
          current_relevance' = meta_get chunk_metadata ''current_relevance'' (MReal 0.5);
          urgency_score' = meta_get chunk_metadata ''urgency_score'' (MReal 0.0);
          enhanced =
            (case meta_num intelligence_boost of
               None \<Rightarrow> None
             | Some ib \<Rightarrow>
                 apply_query_specific_boost lower (score result * ib) query status_type'
                   current_relevance' urgency_score');
          passes =
            (case intelligence_filters of
               None \<Rightarrow> Some True
             | Some fs \<Rightarrow>
                 if fs = [] then Some True else passes_intelligence_filters chunk_metadata fs)
      in case (enhanced, passes) of
           (Some e, Some True) \<Rightarrow> [result\<lparr>enhanced_score := e\<rparr>]
         | (Some e, Some False) \<Rightarrow> []
         | _ \<Rightarrow> [result\<lparr>enhanced_score := score result\<rparr>])"

definition apply_intelligence_boost ::
  "(pystr \<Rightarrow> pystr) \<Rightarrow> SearchResult list \<Rightarrow> pystr \<Rightarrow> (string \<times> meta_value) list option
     \<Rightarrow> SearchResult list" where
  "apply_intelligence_boost lower results query intelligence_filters =
     concat (map (boost_result lower query intelligence_filters) results)"

definition search ::
  "'c HybridSearcher \<Rightarrow> pystr \<Rightarrow> string option \<Rightarrow> (string \<times> where_value) list option
     \<Rightarrow> (string \<times> meta_value) list option \<Rightarrow> search_error + SearchResult list" where
  "search self query domain filters intelligence_filters =
     (case collection self of
        None \<Rightarrow> Inl CollectionNotInitialized
      | Some coll \<Rightarrow>
          (let query' = sanitize_query query
           in case semantic_search self coll query' domain filters of
                Inl e \<Rightarrow> Inl e
              | Inr semantic_results \<Rightarrow>
                  (case keyword_search self query' domain of
                     Inl e \<Rightarrow> Inl e
                   | Inr keyword_results \<Rightarrow>
                       (let combined0 =
                              combine_results semantic_results keyword_results
                                (hybrid_alpha self);
                            combined1 =
                              (case domain of
                                 None \<Rightarrow> combined0
                               | Some d \<Rightarrow>
                                   if d = [] then combined0
                                   else apply_domain_boost self combined0 d);
                            combined2 =
                              (if intelligence_enabled self
                               then apply_intelligence_boost (str_lower self) combined1
                                      query' intelligence_filters
                               else map (\<lambda>r. r\<lparr>enhanced_score := score r\<rparr>) combined1);
                            sorted = sort_key (\<lambda>r. - enhanced_score r) combined2;
                            filtered_results =
                              filter (\<lambda>r. enhanced_score r \<ge> relevance_threshold self)
                                sorted
                        in Inr (py_slice filtered_results 0 (top_k self))))))"

text \<open>
  A vector index for worked examples: a collection is the list of the ids it holds,
  no collection exists at the start, and no document path is known to it.
\<close>

definition example_index :: "string list VectorIndex" where
  "example_index =
     \<lparr>get_collection = (\<lambda>name. Inl ''does not exist''),
      create_collection = (\<lambda>name. Inr []),
      collection_add = (\<lambda>c ids embeddings documents metadatas. Inr (c @ ids)),
      collection_query = (\<lambda>c embedding n w. Inr []),
      collection_get = (\<lambda>c limit. Inr []),
      collection_get_ids = (\<lambda>c path. Inr []),
      collection_delete = (\<lambda>c ids. Inr (filter (\<lambda>i. i \<notin> set ids) c))\<rparr>"

definition example_searcher :: "string list HybridSearcher" where
  "example_searcher =
     init_HybridSearcher example_index (\<lambda>q. Inr [0]) (\<lambda>text path. Inl ''unavailable'')
       example_lower [] 5 0.3 0.7 True"

section \<open>Embedding cache (core/embedder.py)\<close>

text \<open>
  The embedding provider is an external collaborator: \<open>model_encode batch\<close> is the list
  of vectors the model returns for a batch of texts, or \<open>Inl\<close> when the call raises.
  \<open>content_hash\<close> is the MD5 digest of \<open>_get_content_hash\<close>. The field \<open>encoded\<close> is
  not in the source: it records, in order, the batches handed to the provider, so that
  the calls can be counted. Writing the cache to disk (\<open>_save_cache\<close>) changes nothing
  that the model keeps.
\<close>

record LocalEmbedder =
  batch_size :: int
  model_encode :: "pystr list \<Rightarrow> string + real list list"
  content_hash :: "pystr \<Rightarrow> string"
  embedding_cache :: "(string \<times> real list) list"
  encoded :: "pystr list list"

text \<open>The slices \<open>texts[i:i + n]\<close> for \<open>i\<close> in \<open>range(0, len(texts), n)\<close>, for positive \<open>n\<close>.\<close>

function batches :: "nat \<Rightarrow> 'a list \<Rightarrow> 'a list list" where
  "batches n xs = (if n = 0 \<or> xs = [] then [] else take n xs # batches n (drop n xs))"
  by pat_completeness auto
termination
  by (relation "measure (\<lambda>(n, xs). length xs)") auto

declare batches.simps [simp del]

fun encode_batches ::
  "LocalEmbedder \<Rightarrow> pystr list list \<Rightarrow> real list list
     \<Rightarrow> (string + real list list) \<times> LocalEmbedder" where
  "encode_batches self [] all_embeddings = (Inr all_embeddings, self)"
| "encode_batches self (batch # rest) all_embeddings =
     (case model_encode self batch of
        Inl e \<Rightarrow> (Inl e, self\<lparr>encoded := encoded self @ [batch]\<rparr>)
      | Inr batch_embeddings \<Rightarrow>
          encode_batches (self\<lparr>encoded := encoded self @ [batch]\<rparr>) rest
            (all_embeddings @ batch_embeddings))"

text \<open>
  \<open>_batch_encode\<close>: \<open>range\<close> raises on a step of zero and is empty on a negative step.
\<close>

definition batch_encode ::
  "LocalEmbedder \<Rightarrow> pystr list \<Rightarrow> (string + real list list) \<times> LocalEmbedder" where
  "batch_encode self texts =
     (if batch_size self = 0 then (Inl ''ValueError: range() arg 3 must not be zero'', self)
      else if batch_size self < 0 then (Inr [], self)
      else encode_batches self (batches (nat (batch_size self)) texts) [])"

text \<open>
  One step of the loop that commits new embeddings: the cache entry and the
  placeholder at index \<open>idx\<close>.
\<close>

definition commit_embedding ::
  "(pystr \<Rightarrow> string) \<Rightarrow> (string \<times> real list) list \<times> real list option list
     \<Rightarrow> (nat \<times> Chunk) \<times> real list
     \<Rightarrow> (string \<times> real list) list \<times> real list option list" where
  "commit_embedding h st item =
     (case (st, item) of
        ((cache, embeddings), ((idx, c), embedding)) \<Rightarrow>
          (dict_set (h (content c)) embedding cache, embeddings[idx := Some embedding]))"

definition embed_chunks ::
  "LocalEmbedder \<Rightarrow> Chunk list \<Rightarrow> (string + real list option list) \<times> LocalEmbedder" where
  "embed_chunks self chunks =
     (let embeddings =
            map (\<lambda>c. map_of (embedding_cache self) (content_hash self (content c))) chunks;
          chunks_to_embed =
            filter (\<lambda>(i, c). \<not> dict_has (embedding_cache self) (content_hash self (content c)))
              (enumerate 0 chunks)
      in if chunks_to_embed \<noteq> []
         then (case batch_encode self (map (\<lambda>(i, c). content c) chunks_to_embed) of
                 (Inl e, self') \<Rightarrow> (Inl e, self')
               | (Inr new_embeddings, self') \<Rightarrow>
                   (case foldl (commit_embedding (content_hash self))
                           (embedding_cache self, embeddings)
                           (zip chunks_to_embed new_embeddings) of
                      (cache', embeddings') \<Rightarrow>
                        (Inr embeddings', self'\<lparr>embedding_cache := cache'\<rparr>)))
         else (Inr embeddings, self))"




text \<open>
  A provider that returns one vector for each text of a batch and never raises.
\<close>

definition provider_total :: "LocalEmbedder \<Rightarrow> bool" where
  "provider_total self =
     (\<forall>batch. \<exists>vs. model_encode self batch = Inr vs \<and> length vs = length batch)"

text \<open>An embedder for worked examples: batches of two, an empty cache.\<close>

definition example_encode :: "pystr list \<Rightarrow> string + real list list" where
  "example_encode batch = Inr (map (\<lambda>t. [real (length t)]) batch)"

definition example_content_hash :: "pystr \<Rightarrow> string" where
  "example_content_hash t = ''md5:'' @ map char_of t"

definition example_embedder :: LocalEmbedder where
  "example_embedder =
     \<lparr>batch_size = 2, model_encode = example_encode, content_hash = example_content_hash,
      embedding_cache = [], encoded = []\<rparr>"

section \<open>Incremental indexer (core/indexer.py)\<close>

text \<open>
  The entry that \<open>_scan_memory_bank\<close> records for a file, and the state of a scan or of
  the persisted \<open>index_state.json\<close>: a dictionary from relative paths to entries. An
  association list stands for the dictionary \<open>map_of\<close> of it.
\<close>

record FileMeta =
  absolute_path :: pystr
  hash :: string
  mtime :: real
  size :: int

type_synonym index_state = "(pystr \<times> FileMeta) list"

text \<open>
  \<open>detect_changes\<close>, given the result of \<open>_scan_memory_bank()\<close> and of
  \<open>_load_index_state()\<close>. The source builds the lists from Python sets, whose iteration
  order is not specified; the model lists the paths in the order of the dictionaries.
\<close>

definition detect_changes ::
  "index_state \<Rightarrow> index_state \<Rightarrow> pystr list \<times> pystr list \<times> pystr list" where
  "detect_changes current_state previous_state =
     (let current_files = dict_keys current_state;
          previous_files = dict_keys previous_state;
          new_files = filter (\<lambda>p. p \<notin> set previous_files) current_files;
          deleted_files = filter (\<lambda>p. p \<notin> set current_files) previous_files;
          modified_files =
            filter (\<lambda>file_path'.
                      map_option hash (map_of current_state file_path')
                        \<noteq> map_option hash (map_of previous_state file_path'))
              (filter (\<lambda>p. p \<in> set previous_files) current_files)
      in (new_files, modified_files, deleted_files))"

text \<open>
  What reading a file gives: its text, or one of the exceptions the source handles. For
  \<open>UnicodeDecodeError\<close> the value is the outcome of the second attempt, with the
  \<open>latin-1\<close> encoding.
\<close>

datatype read_result =
  FileText pystr
  | FileNotFoundError
  | UnicodeDecodeError "pystr option"
  | PermissionError
  | OtherReadError string

definition read_content :: "(pystr \<Rightarrow> read_result) \<Rightarrow> pystr \<Rightarrow> pystr option" where
  "read_content read_file path =
     (case read_file path of
        FileText text \<Rightarrow> Some text
      | FileNotFoundError \<Rightarrow> None
      | UnicodeDecodeError fallback \<Rightarrow> fallback
      | PermissionError \<Rightarrow> None
      | OtherReadError e \<Rightarrow> None)"

text \<open>
  The indexer with its three components and the persisted index state (empty when the
  file is absent or unreadable). \<open>state_saves\<close> is not in the source: it counts the calls
  of \<open>_save_index_state\<close>.
\<close>

record 'c IncrementalIndexer =
  chunker :: MemoryBankChunker
  embedder :: LocalEmbedder
  searcher :: "'c HybridSearcher"
  index_state_file :: index_state
  state_saves :: nat

text \<open>
  The body of the indexing loop for one file: whether the file was indexed, and the
  indexer after it. An exception inside the body is caught and logged by the source, and
  the loop goes on. The result is \<open>None\<close> when the chunker does not return.
\<close>

definition index_file ::
  "(pystr \<Rightarrow> read_result) \<Rightarrow> index_state \<Rightarrow> 'c IncrementalIndexer \<Rightarrow> pystr
     \<Rightarrow> (bool \<times> 'c IncrementalIndexer) option" where
  "index_file read_file current_state self file_path' =
     (case map_of current_state file_path' of
        None \<Rightarrow> Some (False, self)
      | Some entry \<Rightarrow>
          (case read_content read_file (absolute_path entry) of
             None \<Rightarrow> Some (False, self)
           | Some content' \<Rightarrow>
               if py_strip content' = [] then Some (False, self)
               else (case chunk_document (chunker self) file_path' content' of
                       None \<Rightarrow> None
                     | Some chunks \<Rightarrow>
                         if chunks = [] then Some (False, self)
                         else (case embed_chunks (embedder self) chunks of
                                 (Inl e, embedder') \<Rightarrow>
                                   Some (False, self\<lparr>embedder := embedder'\<rparr>)
                               | (Inr embeddings, embedder') \<Rightarrow>
                                   (case add_chunks (searcher self) chunks embeddings of
                                      Inl e \<Rightarrow> Some (False, self\<lparr>embedder := embedder'\<rparr>)
                                    | Inr searcher' \<Rightarrow>
                                        Some (True, self\<lparr>embedder := embedder',
                                                          searcher := searcher'\<rparr>))))))"

fun index_files ::
  "(pystr \<Rightarrow> read_result) \<Rightarrow> index_state \<Rightarrow> 'c IncrementalIndexer \<Rightarrow> pystr list \<Rightarrow> nat
     \<Rightarrow> (nat \<times> 'c IncrementalIndexer) option" where
  "index_files read_file current_state self [] indexed_count = Some (indexed_count, self)"
| "index_files read_file current_state self (file_path' # rest) indexed_count =
     (case index_file read_file current_state self file_path' of
        None \<Rightarrow> None
      | Some (indexed, self') \<Rightarrow>
          index_files read_file current_state self' rest
            (if indexed then indexed_count + 1 else indexed_count))"

text \<open>Deleting the chunks of a list of paths; the first exception ends the loop.\<close>

fun delete_documents ::
  "'c HybridSearcher \<Rightarrow> pystr list \<Rightarrow> search_error + 'c HybridSearcher" where
  "delete_documents s [] = Inr s"
| "delete_documents s (file_path' # rest) =
     (case delete_document s file_path' of
        Inl e \<Rightarrow> Inl e
      | Inr s' \<Rightarrow> delete_documents s' rest)"

text \<open>
  \<open>incremental_index\<close>, given the results \<open>scan1\<close> and \<open>scan2\<close> of its two calls of
  \<open>_scan_memory_bank()\<close>. It returns the number of files indexed, or the exception it
  raises, and the indexer after the call; \<open>None\<close> when the chunker does not return.
\<close>

definition incremental_index ::
  "(pystr \<Rightarrow> read_result) \<Rightarrow> index_state \<Rightarrow> index_state \<Rightarrow> 'c IncrementalIndexer
     \<Rightarrow> ((search_error + nat) \<times> 'c IncrementalIndexer) option" where
  "incremental_index read_file scan1 scan2 self =
     (case detect_changes scan1 (index_state_file self) of
        (new_files, modified_files, deleted_files) \<Rightarrow>
          if length new_files + length modified_files + length deleted_files = 0
          then Some (Inr 0, self)
          else (case delete_documents (searcher self) deleted_files of
                  Inl e \<Rightarrow> Some (Inl e, self)
                | Inr s1 \<Rightarrow>
                    (case delete_documents s1 modified_files of
                       Inl e \<Rightarrow> Some (Inl e, self\<lparr>searcher := s1\<rparr>)
                     | Inr s2 \<Rightarrow>
                         (case index_files read_file scan2 (self\<lparr>searcher := s2\<rparr>)
                                 (new_files @ modified_files) 0 of
                            None \<Rightarrow> None
                          | Some (indexed_count, self') \<Rightarrow>
                              Some (Inr indexed_count,
                                    self'\<lparr>index_state_file := scan2,
                                           state_saves := state_saves self' + 1\<rparr>)))))"

text \<open>An indexer and two scans for worked examples.\<close>

definition example_indexer :: "string list IncrementalIndexer" where
  "example_indexer =
     \<lparr>chunker = example_chunker, embedder = example_embedder, searcher = example_searcher,
      index_state_file =
        [(py_str ''a.md'', \<lparr>absolute_path = py_str ''/bank/a.md'', hash = ''h1'', mtime = 1, size = 10\<rparr>),
         (py_str ''b.md'', \<lparr>absolute_path = py_str ''/bank/b.md'', hash = ''h2'', mtime = 1, size = 20\<rparr>),
         (py_str ''c.md'', \<lparr>absolute_path = py_str ''/bank/c.md'', hash = ''h3'', mtime = 1, size = 30\<rparr>)],
      state_saves = 0\<rparr>"

definition example_scan_same :: index_state where
  "example_scan_same =
     [(py_str ''c.md'', \<lparr>absolute_path = py_str ''/bank/c.md'', hash = ''h3'', mtime = 2, size = 30\<rparr>),
      (py_str ''a.md'', \<lparr>absolute_path = py_str ''/bank/a.md'', hash = ''h1'', mtime = 2, size = 10\<rparr>),
      (py_str ''b.md'', \<lparr>absolute_path = py_str ''/bank/b.md'', hash = ''h2'', mtime = 2, size = 20\<rparr>)]"

definition example_scan_changed :: index_state where
  "example_scan_changed =
     [(py_str ''a.md'', \<lparr>absolute_path = py_str ''/bank/a.md'', hash = ''h1'', mtime = 1, size = 10\<rparr>),
      (py_str ''b.md'', \<lparr>absolute_path = py_str ''/bank/b.md'', hash = ''h9'', mtime = 5, size = 21\<rparr>),
      (py_str ''d.md'', \<lparr>absolute_path = py_str ''/bank/d.md'', hash = ''h4'', mtime = 5, size = 40\<rparr>)]"

definition example_read_file :: "pystr \<Rightarrow> read_result" where
  "example_read_file path = FileNotFoundError"

section \<open>Boost cap\<close>

lemma priority_multiplier_le_cap: "calculate_priority_multiplier pm \<le> 3"
  by (simp add: calculate_priority_multiplier_def Let_def)

text \<open>
  Claim C3. For all status, temporal and priority signals extracted from a chunk, the
  overall boost is at most the configured \<open>boost_cap\<close>, and at most 3.0 when the
  configuration names no cap, however many multipliers apply.
\<close>

theorem overall_boost_le_cap:
  "calculate_overall_boost cfg si tc pm \<le> configured_boost_cap cfg
   \<and> calculate_overall_boost \<lparr>intelligence = None\<rparr> si tc pm \<le> 3
   \<and> calculate_overall_boost \<lparr>intelligence = Some \<lparr>boost_cap = None\<rparr>\<rparr> si tc pm \<le> 3"
  by (simp add: calculate_overall_boost_def configured_boost_cap_def Let_def)

section \<open>Citations\<close>

lemma py_replace_single:
  "py_replace [x] new s = concat (map (\<lambda>c. if c = x then new else [c]) s)"
  by (induction s) (simp_all add: py_startswith_def)

lemma concat_map_single:
  "concat (map (\<lambda>c. if c = x then [y] else [c]) s) = map (\<lambda>c. if c = x then y else c) s"
  by (induction s) simp_all

lemma concat_map_drop: "concat (map (\<lambda>c. if c = x then [] else [c]) s) = filter (\<lambda>c. c \<noteq> x) s"
  by (induction s) simp_all

lemma py_str_space: "py_str '' '' = [32]" and py_str_hash: "py_str ''#'' = [35]"
  and py_str_hyphen: "py_str ''-'' = [45]"
  by (simp_all add: py_str_def code_point_def)

lemma section_slug_spec: "section_slug lower c = spec_slug (lower (section_header c))"
  unfolding section_slug_def spec_slug_def py_str_space py_str_hash py_str_hyphen
    py_replace_single concat_map_single concat_map_drop ..

text \<open>
  The header \<open>## My Notes\<close> of the section \<open>notes.md\<close> is cited as \<open>notes.md#-my-notes\<close>:
  the two \<open>#\<close> go, and each of the two blanks becomes a hyphen.
\<close>

lemma generate_citation_example:
  "generate_citation example_lower (example_chunk cid text) = py_str ''notes.md#-my-notes''"
  by (simp add: generate_citation_def section_slug_def example_chunk_def example_lower_def
      py_str_def code_point_def py_startswith_def)

text \<open>
  Claim C8. The citation of a chunk is its document path, then \<open>#\<close>, then the section
  header lowercased (by \<open>str.lower\<close>, the parameter \<open>lower\<close>) with every space replaced by
  a hyphen and every \<open>#\<close> removed: the two calls of \<open>str.replace\<close> of the source amount to
  that map and that filter, and the slug holds neither a space nor a \<open>#\<close>.
\<close>

theorem generate_citation_format:
  "generate_citation lower c = spec_citation lower c
   \<and> 32 \<notin> set (section_slug lower c)
   \<and> 35 \<notin> set (section_slug lower c)"
proof -
  have "32 \<notin> set (spec_slug h)" "35 \<notin> set (spec_slug h)" for h
    by (auto simp: spec_slug_def)
  then show ?thesis
    by (simp add: generate_citation_def spec_citation_def section_slug_spec py_str_hash)
qed

section \<open>Size tiers\<close>

lemma py_split_char_nonempty: "py_split_char sep s \<noteq> []"
  by (induction s) (simp_all split: list.splits)

lemma length_py_split_char: "length (py_split_char sep s) = count_list s sep + 1"
proof (induction s)
  case Nil
  then show ?case by simp
next
  case (Cons c cs)
  then show ?case
    using py_split_char_nonempty [of sep cs]
    by (cases "py_split_char sep cs") simp_all
qed

text \<open>
  Claim C6, as the code has it. The returned line count is the number of
  newline-separated lines of the content (one more than the number of line feeds). When
  the small threshold is below the medium threshold, a document of exactly
  \<open>small_file_lines\<close> lines is in the small tier and one of \<open>small_file_lines + 1\<close>
  lines in the medium tier, a document of exactly \<open>medium_file_lines\<close> lines is in the
  medium tier and one of \<open>medium_file_lines + 1\<close> lines in the large tier.
\<close>

theorem tier_boundary:
  assumes "small_threshold self < medium_threshold self"
  shows "snd (categorize_document self c) = int (length (py_split_char NL c))
    \<and> length (py_split_char NL c) = count_list c NL + 1
    \<and> (int (length (py_split_char NL c)) = small_threshold self
          \<longrightarrow> fst (categorize_document self c) = Green)
    \<and> (int (length (py_split_char NL c)) = small_threshold self + 1
          \<longrightarrow> fst (categorize_document self c) = Yellow)
    \<and> (int (length (py_split_char NL c)) = medium_threshold self
          \<longrightarrow> fst (categorize_document self c) = Yellow)
    \<and> (int (length (py_split_char NL c)) = medium_threshold self + 1
          \<longrightarrow> fst (categorize_document self c) = Red)"
  using assms
  by (simp add: categorize_document_def Let_def length_py_split_char)

text \<open>
  The theorem at the thresholds 2 and 4: documents of two, three, four and five lines.
\<close>

theorem tier_boundary_witness:
  "fst (categorize_document (example_chunker\<lparr>small_threshold := 2, medium_threshold := 4\<rparr>)
        (py_str ''a'' @ [NL] @ py_str ''b'')) = Green
   \<and> fst (categorize_document (example_chunker\<lparr>small_threshold := 2, medium_threshold := 4\<rparr>)
        (py_str ''a'' @ [NL] @ py_str ''b'' @ [NL] @ py_str ''c'')) = Yellow
   \<and> fst (categorize_document (example_chunker\<lparr>small_threshold := 2, medium_threshold := 4\<rparr>)
        (py_str ''a'' @ [NL] @ py_str ''b'' @ [NL] @ py_str ''c'' @ [NL] @ py_str ''d'')) = Yellow
   \<and> fst (categorize_document (example_chunker\<lparr>small_threshold := 2, medium_threshold := 4\<rparr>)
        (py_str ''a'' @ [NL] @ py_str ''b'' @ [NL] @ py_str ''c'' @ [NL] @ py_str ''d'' @ [NL] @ py_str ''e'')) = Red"
proof -
  have lt: "small_threshold (example_chunker\<lparr>small_threshold := 2, medium_threshold := 4\<rparr>)
      < medium_threshold (example_chunker\<lparr>small_threshold := 2, medium_threshold := 4\<rparr>)"
    by (simp add: example_chunker_def)
  have nl: "py_str ''a'' = [97]" "py_str ''b'' = [98]" "py_str ''c'' = [99]"
    "py_str ''d'' = [100]" "py_str ''e'' = [101]" "NL = 10"
    by (simp_all add: NL_def py_str_def code_point_def)
  show ?thesis
    using tier_boundary [OF lt, of "py_str ''a'' @ [NL] @ py_str ''b''"]
      tier_boundary [OF lt, of "py_str ''a'' @ [NL] @ py_str ''b'' @ [NL] @ py_str ''c''"]
      tier_boundary [OF lt, of "py_str ''a'' @ [NL] @ py_str ''b'' @ [NL] @ py_str ''c'' @ [NL] @ py_str ''d''"]
      tier_boundary [OF lt,
        of "py_str ''a'' @ [NL] @ py_str ''b'' @ [NL] @ py_str ''c'' @ [NL] @ py_str ''d'' @ [NL]
          @ py_str ''e''"]
    by (simp add: example_chunker_def nl)
qed

text \<open>
  With both thresholds at two lines, a document of three lines, one more than
  \<open>small_file_lines\<close>, is in the large tier, not in the medium tier.
\<close>

theorem tier_boundary_counterexample:
  "int (length (py_split_char NL (py_str ''a'' @ [NL] @ py_str ''b'' @ [NL] @ py_str ''c'')))
     = small_threshold (example_chunker\<lparr>small_threshold := 2, medium_threshold := 2\<rparr>) + 1
   \<and> fst (categorize_document (example_chunker\<lparr>small_threshold := 2, medium_threshold := 2\<rparr>)
        (py_str ''a'' @ [NL] @ py_str ''b'' @ [NL] @ py_str ''c'')) = Red
   \<and> fst (categorize_document (example_chunker\<lparr>small_threshold := 2, medium_threshold := 2\<rparr>)
        (py_str ''a'' @ [NL] @ py_str ''b'' @ [NL] @ py_str ''c'')) \<noteq> Yellow"
proof -
  have nl: "py_str ''a'' = [97]" "py_str ''b'' = [98]" "py_str ''c'' = [99]" "NL = 10"
    by (simp_all add: NL_def py_str_def code_point_def)
  then show ?thesis
    by (simp add: categorize_document_def example_chunker_def Let_def)
qed

section \<open>Score fusion\<close>

lemma semantic_phase:
  "distinct (result_ids sem) \<Longrightarrow>
   foldl (add_semantic_result alpha) [] sem
     = map (\<lambda>s. (chunk_id (chunk s), s\<lparr>score := score s * alpha\<rparr>)) sem"
proof (induction sem rule: rev_induct)
  case Nil
  then show ?case by simp
next
  case (snoc x xs)
  then have "chunk_id (chunk x) \<notin> set (result_ids xs)" and "distinct (result_ids xs)"
    by (simp_all add: result_ids_def)
  with snoc.IH show ?case
    by (simp add: add_semantic_result_def dict_has_def result_ids_def comp_def image_iff)
qed

lemma result_for_append_miss:
  "cid \<noteq> chunk_id (chunk x) \<Longrightarrow> result_for cid (xs @ [x]) = result_for cid xs"
  by (induction xs) (simp_all add: result_for_def)

lemma result_for_append_hit:
  "chunk_id (chunk x) \<notin> set (result_ids xs) \<Longrightarrow> result_for (chunk_id (chunk x)) (xs @ [x]) = Some x"
  by (induction xs) (auto simp: result_for_def result_ids_def)

lemma result_for_None: "result_for cid xs = None \<longleftrightarrow> cid \<notin> set (result_ids xs)"
  by (induction xs) (auto simp: result_for_def result_ids_def)

lemma fst_absorb [simp]: "fst (absorb_keyword alpha kw e) = fst e"
  by (simp add: absorb_keyword_def split: option.splits)

lemma keyword_phase:
  assumes "distinct (result_ids kw)"
  shows "foldl (add_keyword_result alpha) m kw
     = map (absorb_keyword alpha kw) m
       @ map (fresh_keyword alpha) (filter (\<lambda>k. chunk_id (chunk k) \<notin> set (map fst m)) kw)"
  using assms
proof (induction kw rule: rev_induct)
  case Nil
  then show ?case by (simp add: absorb_keyword_def result_for_def map_idI)
next
  case (snoc x xs)
  let ?c = "chunk_id (chunk x)"
  let ?A = "map (absorb_keyword alpha xs) m"
  let ?B = "map (fresh_keyword alpha) (filter (\<lambda>k. chunk_id (chunk k) \<notin> set (map fst m)) xs)"
  let ?G = "\<lambda>(k', v). if k' = ?c
              then (k', v\<lparr>score := score v + score x * (1 - alpha), relevance_type := ''hybrid''\<rparr>)
              else (k', v)"
  from snoc.prems have fresh: "?c \<notin> set (result_ids xs)" and dist: "distinct (result_ids xs)"
    by (simp_all add: result_ids_def)
  have IH: "foldl (add_keyword_result alpha) m xs = ?A @ ?B"
    using snoc.IH dist by simp
  have keys_A: "map fst ?A = map fst m"
    by simp
  have keys_B: "?c \<notin> set (map fst ?B)"
    using fresh by (auto simp: fresh_keyword_def result_ids_def)
  have step: "foldl (add_keyword_result alpha) m (xs @ [x]) = add_keyword_result alpha (?A @ ?B) x"
    by (simp add: IH)
  show ?case
  proof (cases "?c \<in> set (map fst m)")
    case True
    have a: "map ?G ?A = map (absorb_keyword alpha (xs @ [x])) m"
      unfolding map_map
    proof (rule map_cong [OF refl])
      fix e assume "e \<in> set m"
      show "(?G \<circ> absorb_keyword alpha xs) e = absorb_keyword alpha (xs @ [x]) e"
      proof (cases "fst e = ?c")
        case True
        then have "result_for (fst e) xs = None"
          using fresh by (simp add: result_for_None)
        then show ?thesis
          using True result_for_append_hit [OF fresh]
          by (cases e) (simp add: absorb_keyword_def)
      next
        case False
        then show ?thesis
          using result_for_append_miss [of "fst e" x xs]
          by (cases e) (simp add: absorb_keyword_def split: option.splits)
      qed
    qed
    have b: "map ?G ?B = ?B"
    proof (rule map_idI)
      fix e assume "e \<in> set ?B"
      then have "fst e \<noteq> ?c" using keys_B by force
      then show "?G e = e"
        by (cases e) simp
    qed
    have "dict_has (?A @ ?B) ?c"
      using True keys_A unfolding dict_has_def by (metis Un_iff map_append set_append)
    then have "add_keyword_result alpha (?A @ ?B) x = map ?G ?A @ map ?G ?B"
      by (simp only: add_keyword_result_def dict_modify_def map_append not_True_eq_False if_False)
    also have "\<dots> = map (absorb_keyword alpha (xs @ [x])) m
       @ map (fresh_keyword alpha) (filter (\<lambda>k. chunk_id (chunk k) \<notin> set (map fst m)) (xs @ [x]))"
      using True by (simp only: a b) simp
    finally show ?thesis
      using step by simp
  next
    case False
    have a: "map (absorb_keyword alpha (xs @ [x])) m = ?A"
    proof (rule map_cong [OF refl])
      fix e assume "e \<in> set m"
      then have "fst e \<noteq> ?c" using False by force
      then show "absorb_keyword alpha (xs @ [x]) e = absorb_keyword alpha xs e"
        using result_for_append_miss [of "fst e" x xs] by (simp add: absorb_keyword_def)
    qed
    have "\<not> dict_has (?A @ ?B) ?c"
      using False keys_A keys_B unfolding dict_has_def by (metis Un_iff map_append set_append)
    then have "add_keyword_result alpha (?A @ ?B) x = (?A @ ?B) @ [fresh_keyword alpha x]"
      by (simp add: add_keyword_result_def fresh_keyword_def)
    also have "\<dots> = map (absorb_keyword alpha (xs @ [x])) m
       @ map (fresh_keyword alpha) (filter (\<lambda>k. chunk_id (chunk k) \<notin> set (map fst m)) (xs @ [x]))"
      using False by (simp only: a) simp
    finally show ?thesis
      using step by simp
  qed
qed

lemma result_for_Some: "result_for cid xs = Some r \<Longrightarrow> r \<in> set xs \<and> chunk_id (chunk r) = cid"
  by (induction xs) (auto simp: result_for_def split: if_splits)

lemma result_for_member:
  "distinct (result_ids xs) \<Longrightarrow> r \<in> set xs \<Longrightarrow> result_for (chunk_id (chunk r)) xs = Some r"
  by (induction xs) (auto simp: result_for_def result_ids_def)

text \<open>
  Claim C1, as the code has it. For result lists in which no chunk id occurs twice
  within one list, and every \<open>alpha\<close>: the fused list holds one result per chunk id, the
  semantic ids in their order followed by the ids only the keyword leg found. A chunk
  found only by the semantic leg is that leg's result with the score \<open>alpha * semantic\<close>,
  its tag kept; a chunk found only by the keyword leg is that leg's result with the score
  \<open>(1 - alpha) * keyword\<close> and the tag \<open>keyword\<close>; a chunk found by both is the semantic
  result with the score \<open>alpha * semantic + (1 - alpha) * keyword\<close> and the tag \<open>hybrid\<close>.
\<close>

theorem combine_results_fusion:
  assumes "distinct (result_ids sem)" and "distinct (result_ids kw)"
  shows "result_ids (combine_results sem kw alpha)
           = result_ids sem @ filter (\<lambda>c. c \<notin> set (result_ids sem)) (result_ids kw)
    \<and> distinct (result_ids (combine_results sem kw alpha))
    \<and> (\<forall>r \<in> set (combine_results sem kw alpha).
           (case (result_for (chunk_id (chunk r)) sem, result_for (chunk_id (chunk r)) kw) of
              (Some s, None) \<Rightarrow> r = s\<lparr>score := alpha * score s\<rparr>
            | (None, Some k) \<Rightarrow>
                r = k\<lparr>score := (1 - alpha) * score k, relevance_type := ''keyword''\<rparr>
            | (Some s, Some k) \<Rightarrow>
                r = s\<lparr>score := alpha * score s + (1 - alpha) * score k,
                       relevance_type := ''hybrid''\<rparr>
            | (None, None) \<Rightarrow> False))"
proof -
  let ?m = "map (\<lambda>s. (chunk_id (chunk s), s\<lparr>score := score s * alpha\<rparr>)) sem"
  have keys: "map fst ?m = result_ids sem"
    by (simp add: result_ids_def comp_def)
  have eq: "combine_results sem kw alpha
      = map (snd \<circ> absorb_keyword alpha kw) ?m
        @ map (snd \<circ> fresh_keyword alpha)
            (filter (\<lambda>k. chunk_id (chunk k) \<notin> set (result_ids sem)) kw)"
    unfolding combine_results_def semantic_phase [OF assms(1)] keyword_phase [OF assms(2)] keys
    by simp
  have id_absorb: "chunk_id (chunk (snd (absorb_keyword alpha kw e))) = chunk_id (chunk (snd e))" for e
    by (simp add: absorb_keyword_def split: option.splits)
  have ids: "result_ids (combine_results sem kw alpha)
           = result_ids sem @ filter (\<lambda>c. c \<notin> set (result_ids sem)) (result_ids kw)"
    unfolding eq
    by (simp add: result_ids_def comp_def id_absorb fresh_keyword_def filter_map)
  have dist: "distinct (result_ids (combine_results sem kw alpha))"
    unfolding ids using assms by auto
  have each: "(case (result_for (chunk_id (chunk r)) sem, result_for (chunk_id (chunk r)) kw) of
              (Some s, None) \<Rightarrow> r = s\<lparr>score := alpha * score s\<rparr>
            | (None, Some k) \<Rightarrow>
                r = k\<lparr>score := (1 - alpha) * score k, relevance_type := ''keyword''\<rparr>
            | (Some s, Some k) \<Rightarrow>
                r = s\<lparr>score := alpha * score s + (1 - alpha) * score k,
                       relevance_type := ''hybrid''\<rparr>
            | (None, None) \<Rightarrow> False)"
    if "r \<in> set (combine_results sem kw alpha)" for r
  proof -
    from that consider s where "s \<in> set sem"
        "r = snd (absorb_keyword alpha kw (chunk_id (chunk s), s\<lparr>score := score s * alpha\<rparr>))"
      | k where "k \<in> set kw" "chunk_id (chunk k) \<notin> set (result_ids sem)"
        "r = snd (fresh_keyword alpha k)"
      unfolding eq by auto
    then show ?thesis
    proof cases
      case 1
      have cid: "chunk_id (chunk r) = chunk_id (chunk s)"
        using 1(2) by (simp add: id_absorb)
      have rs: "result_for (chunk_id (chunk s)) sem = Some s"
        using result_for_member [OF assms(1) 1(1)] .
      show ?thesis
      proof (cases "result_for (chunk_id (chunk s)) kw")
        case None
        then show ?thesis
          using 1(2) cid rs by (simp add: absorb_keyword_def mult.commute)
      next
        case (Some k)
        then show ?thesis
          using 1(2) cid rs by (simp add: absorb_keyword_def mult.commute)
      qed
    next
      case 2
      have cid: "chunk_id (chunk r) = chunk_id (chunk k)"
        using 2(3) by (simp add: fresh_keyword_def)
      have "result_for (chunk_id (chunk k)) sem = None"
        using 2(2) by (simp add: result_for_None)
      moreover have "result_for (chunk_id (chunk k)) kw = Some k"
        using result_for_member [OF assms(2) 2(1)] .
      ultimately show ?thesis
        using 2(3) cid by (simp add: fresh_keyword_def mult.commute)
    qed
  qed
  from ids dist each show ?thesis
    by blast
qed

text \<open>
  The theorem at chunk \<open>a\<close> found by the semantic leg only, \<open>b\<close> by both legs and \<open>c\<close> by
  the keyword leg only, with \<open>alpha = 1/2\<close>.
\<close>

theorem combine_results_fusion_witness:
  "distinct (result_ids [example_semantic ''a'' 1, example_semantic ''b'' 1])
   \<and> distinct (result_ids [example_keyword ''b'' 1, example_keyword ''c'' 1])
   \<and> map (\<lambda>r. (chunk_id (chunk r), score r, relevance_type r))
        (combine_results [example_semantic ''a'' 1, example_semantic ''b'' 1]
           [example_keyword ''b'' 1, example_keyword ''c'' 1] (1/2))
      = [(''a'', 1/2, ''semantic''), (''b'', 1, ''hybrid''), (''c'', 1/2, ''keyword'')]"
proof -
  have d1: "distinct (result_ids [example_semantic ''a'' 1, example_semantic ''b'' 1])"
    by (simp add: result_ids_def example_semantic_def new_SearchResult_def example_chunk_def)
  have d2: "distinct (result_ids [example_keyword ''b'' 1, example_keyword ''c'' 1])"
    by (simp add: result_ids_def example_keyword_def new_SearchResult_def example_chunk_def)
  have "result_ids (combine_results [example_semantic ''a'' 1, example_semantic ''b'' 1]
           [example_keyword ''b'' 1, example_keyword ''c'' 1] (1/2)) = [''a'', ''b'', ''c'']"
    using combine_results_fusion [OF d1 d2, of "1/2"]
    by (simp add: result_ids_def example_semantic_def example_keyword_def
        new_SearchResult_def example_chunk_def)
  moreover have "map (\<lambda>r. (score r, relevance_type r))
        (combine_results [example_semantic ''a'' 1, example_semantic ''b'' 1]
           [example_keyword ''b'' 1, example_keyword ''c'' 1] (1/2))
      = [(1/2, ''semantic''), (1, ''hybrid''), (1/2, ''keyword'')]"
    by (simp add: combine_results_def add_semantic_result_def add_keyword_result_def
        dict_has_def dict_modify_def example_semantic_def example_keyword_def
        new_SearchResult_def example_chunk_def)
  ultimately show ?thesis
    using d1 d2
    by (simp add: combine_results_def add_semantic_result_def add_keyword_result_def
        dict_has_def dict_modify_def example_semantic_def example_keyword_def
        new_SearchResult_def example_chunk_def)
qed

text \<open>
  A keyword list that names chunk \<open>a\<close> twice, and an empty semantic list: the chunk is
  found by the keyword leg only, yet the fused result is tagged \<open>hybrid\<close>, and its score
  is the sum of both entries, \<open>1\<close>, not \<open>(1 - alpha) * keyword = 1/2\<close>.
\<close>

theorem combine_results_fusion_counterexample:
  "map (\<lambda>r. (chunk_id (chunk r), score r, relevance_type r))
     (combine_results [] [example_keyword ''a'' 1, example_keyword ''a'' 1] (1/2))
   = [(''a'', 1, ''hybrid'')]"
  by (simp add: combine_results_def add_keyword_result_def dict_has_def dict_modify_def
      example_keyword_def new_SearchResult_def example_chunk_def)

section \<open>Embedding cache\<close>

lemma provider_total_encoded [simp]:
  "provider_total (self\<lparr>encoded := l\<rparr>) = provider_total self"
  by (simp add: provider_total_def)


lemma batches_Nil [simp]: "batches n [] = []"
  by (simp add: batches.simps)















section \<open>Change detection\<close>

lemma set_dict_keys: "set (dict_keys d) = dom (map_of d)"
  by (simp add: dict_keys_def dom_map_of_conv_image_fst)

lemma distinct_dict_keys: "distinct (dict_keys d)"
  by (simp add: dict_keys_def)

text \<open>
  Claim C2. For every current scan and previous index state, \<open>detect_changes\<close> returns
  as new the paths in the current state but not in the previous one, as deleted the
  paths in the previous state but not in the current one, and as modified the paths in
  both whose content hash differs. No path is listed twice, no path is in two of the
  lists, and a path in both states with the same hash is in none.
\<close>

theorem detect_changes_classification:
  "(case detect_changes cur prev of
      (new, modified, deleted) \<Rightarrow>
        set new = dom (map_of cur) - dom (map_of prev)
      \<and> set deleted = dom (map_of prev) - dom (map_of cur)
      \<and> set modified
          = {p. \<exists>c v. map_of cur p = Some c \<and> map_of prev p = Some v \<and> hash c \<noteq> hash v}
      \<and> distinct new \<and> distinct modified \<and> distinct deleted
      \<and> set new \<inter> set modified = {} \<and> set new \<inter> set deleted = {}
      \<and> set modified \<inter> set deleted = {}
      \<and> (\<forall>p c v. map_of cur p = Some c \<and> map_of prev p = Some v \<and> hash c = hash v
            \<longrightarrow> p \<notin> set new \<union> set modified \<union> set deleted))"
proof -
  have m: "{p \<in> dom (map_of cur). p \<in> dom (map_of prev)
              \<and> map_option hash (map_of cur p) \<noteq> map_option hash (map_of prev p)}
      = {p. \<exists>c v. map_of cur p = Some c \<and> map_of prev p = Some v \<and> hash c \<noteq> hash v}"
    by (auto simp: dom_def)
  have "set (filter (\<lambda>p. map_option hash (map_of cur p) \<noteq> map_option hash (map_of prev p))
               (filter (\<lambda>p. p \<in> set (dict_keys prev)) (dict_keys cur)))
      = {p. \<exists>c v. map_of cur p = Some c \<and> map_of prev p = Some v \<and> hash c \<noteq> hash v}"
    using m by (auto simp: set_dict_keys)
  moreover have "set (filter (\<lambda>p. p \<notin> set (dict_keys prev)) (dict_keys cur))
      = dom (map_of cur) - dom (map_of prev)"
    by (auto simp: set_dict_keys)
  moreover have "set (filter (\<lambda>p. p \<notin> set (dict_keys cur)) (dict_keys prev))
      = dom (map_of prev) - dom (map_of cur)"
    by (auto simp: set_dict_keys)
  ultimately show ?thesis
    unfolding detect_changes_def Let_def prod.case
    by (simp only: distinct_filter distinct_dict_keys) auto
qed

text \<open>
  The theorem on the example states: \<open>a.md\<close> is unchanged, \<open>b.md\<close> has a new hash,
  \<open>c.md\<close> is gone and \<open>d.md\<close> is new.
\<close>

theorem detect_changes_classification_witness:
  "detect_changes example_scan_changed (index_state_file example_indexer)
     = ([py_str ''d.md''], [py_str ''b.md''], [py_str ''c.md''])
   \<and> set [py_str ''d.md'']
       = dom (map_of example_scan_changed) - dom (map_of (index_state_file example_indexer))
   \<and> set [py_str ''c.md'']
       = dom (map_of (index_state_file example_indexer)) - dom (map_of example_scan_changed)
   \<and> py_str ''a.md'' \<notin> set [py_str ''d.md''] \<union> set [py_str ''b.md''] \<union> set [py_str ''c.md'']"
proof -
  have ev: "detect_changes example_scan_changed (index_state_file example_indexer)
      = ([py_str ''d.md''], [py_str ''b.md''], [py_str ''c.md''])"
    by (simp add: detect_changes_def dict_keys_def example_scan_changed_def
        example_indexer_def py_str_def code_point_def)
  note cls = detect_changes_classification
    [of example_scan_changed "index_state_file example_indexer", unfolded ev prod.case]
  show ?thesis
  proof (intro conjI)
    show "detect_changes example_scan_changed (index_state_file example_indexer)
        = ([py_str ''d.md''], [py_str ''b.md''], [py_str ''c.md''])"
      by (rule ev)
    show "set [py_str ''d.md'']
        = dom (map_of example_scan_changed) - dom (map_of (index_state_file example_indexer))"
      using cls by blast
    show "set [py_str ''c.md'']
        = dom (map_of (index_state_file example_indexer)) - dom (map_of example_scan_changed)"
      using cls by blast
    show "py_str ''a.md'' \<notin> set [py_str ''d.md''] \<union> set [py_str ''b.md''] \<union> set [py_str ''c.md'']"
      by (simp add: py_str_def code_point_def)
  qed
qed

section \<open>Idempotence of incremental indexing\<close>

lemma detect_changes_same:
  assumes "\<forall>p. map_option hash (map_of cur p) = map_option hash (map_of prev p)"
  shows "detect_changes cur prev = ([], [], [])"
proof -
  have "dom (map_of cur) = dom (map_of prev)"
  proof -
    have "p \<in> dom (map_of cur) \<longleftrightarrow> p \<in> dom (map_of prev)" for p
      using assms [rule_format, of p] by (cases "map_of cur p"; cases "map_of prev p") auto
    then show ?thesis by blast
  qed
  then show ?thesis
    using assms by (simp add: detect_changes_def Let_def set_dict_keys filter_empty_conv)
qed

text \<open>
  Claim C5. When the scan holds the same paths with the same content hashes as the
  persisted index state, \<open>detect_changes\<close> finds no new, modified or deleted file, and
  \<open>incremental_index\<close> returns 0 and leaves the indexer as it was: the record of
  insertions and deletions on the collection, the embedding cache, the batches sent to
  the provider and the persisted state are all unchanged.
\<close>

theorem incremental_index_idempotent:
  assumes "\<forall>p. map_option hash (map_of scan1 p)
                = map_option hash (map_of (index_state_file self) p)"
  shows "detect_changes scan1 (index_state_file self) = ([], [], [])
    \<and> incremental_index read_file scan1 scan2 self = Some (Inr 0, self)"
  using detect_changes_same [OF assms] by (simp add: incremental_index_def)

text \<open>
  The theorem on the example indexer and a scan that lists the same three files, in
  another order and with later modification times.
\<close>

theorem incremental_index_idempotent_witness:
  "(\<forall>p. map_option hash (map_of example_scan_same p)
         = map_option hash (map_of (index_state_file example_indexer) p))
   \<and> incremental_index example_read_file example_scan_same example_scan_changed
        example_indexer = Some (Inr 0, example_indexer)"
proof -
  have same: "\<forall>p. map_option hash (map_of example_scan_same p)
         = map_option hash (map_of (index_state_file example_indexer) p)"
    by (simp add: example_scan_same_def example_indexer_def py_str_def code_point_def)
  from incremental_index_idempotent [OF same, of example_read_file example_scan_changed]
  show ?thesis
    using same by simp
qed

section \<open>The collection precondition\<close>

text \<open>
  Claim C9. \<open>add_chunks\<close> and \<open>search\<close> raise the error of the uninitialized collection
  exactly when the collection is \<open>None\<close>. It is \<open>None\<close> after \<open>__init__\<close>, and set after
  \<open>create_or_load_collection\<close> has returned; with the collection set, neither function
  raises that error.
\<close>

theorem collection_precondition:
  "(add_chunks self chunks embeddings = Inl CollectionNotInitialized
      \<longleftrightarrow> collection self = None)
   \<and> (search self query domain filters intelligence_filters = Inl CollectionNotInitialized
      \<longleftrightarrow> collection self = None)
   \<and> collection (init_HybridSearcher client embed_fn intel_fn lower_fn doms k thr alpha en) = None
   \<and> (\<forall>self'. create_or_load_collection self name = Inr self' \<longrightarrow> collection self' \<noteq> None)"
proof -
  have a: "add_chunks self chunks embeddings = Inl CollectionNotInitialized
      \<longleftrightarrow> collection self = None"
    by (auto simp: add_chunks_def Let_def split: option.splits sum.splits)
  have sem: "semantic_search self c q d f \<noteq> Inl CollectionNotInitialized" for c q d f
    by (simp add: semantic_search_def split: sum.splits)
  have kw: "keyword_search self q d \<noteq> Inl CollectionNotInitialized" for q d
    by (simp add: keyword_search_def Let_def split: option.splits sum.splits)
  have s: "search self query domain filters intelligence_filters = Inl CollectionNotInitialized
      \<longleftrightarrow> collection self = None"
  proof (cases "collection self")
    case None
    then show ?thesis by (simp add: search_def)
  next
    case (Some c)
    then show ?thesis
      using sem kw by (auto simp: search_def Let_def split: sum.splits)
  qed
  have c: "\<forall>self'. create_or_load_collection self name = Inr self' \<longrightarrow> collection self' \<noteq> None"
    by (auto simp: create_or_load_collection_def split: sum.splits)
  show ?thesis
    using a s c by (simp add: init_HybridSearcher_def)
qed

text \<open>
  The theorem on the example searcher, before and after \<open>create_or_load_collection\<close>.
\<close>

theorem collection_precondition_witness:
  "create_or_load_collection example_searcher ''memory_bank''
     = Inr (example_searcher\<lparr>collection := Some []\<rparr>)
   \<and> collection (example_searcher\<lparr>collection := Some []\<rparr>) \<noteq> None
   \<and> add_chunks example_searcher [example_chunk ''a'' ''x''] [Some [1]]
       = Inl CollectionNotInitialized
   \<and> add_chunks (example_searcher\<lparr>collection := Some []\<rparr>) [example_chunk ''a'' ''x'']
        [Some [1]] \<noteq> Inl CollectionNotInitialized
   \<and> search example_searcher (py_str ''x'') None None None = Inl CollectionNotInitialized
   \<and> search (example_searcher\<lparr>collection := Some []\<rparr>) (py_str ''x'') None None None
       \<noteq> Inl CollectionNotInitialized"
proof -
  have ev: "create_or_load_collection example_searcher ''memory_bank''
      = Inr (example_searcher\<lparr>collection := Some []\<rparr>)"
    by (simp add: create_or_load_collection_def example_searcher_def
        init_HybridSearcher_def example_index_def)
  have none: "collection example_searcher = None"
    by (simp add: example_searcher_def init_HybridSearcher_def)
  note before = collection_precondition
    [where self = example_searcher and chunks = "[example_chunk ''a'' ''x'']"
       and embeddings = "[Some [1]]" and query = "py_str ''x''" and domain = None
       and filters = None and intelligence_filters = None and name = "''memory_bank''"
       and client = example_index and doms = "[]" and k = 5 and en = True]
  note after = collection_precondition
    [where self = "example_searcher\<lparr>collection := Some []\<rparr>"
       and chunks = "[example_chunk ''a'' ''x'']"
       and embeddings = "[Some [1]]" and query = "py_str ''x''" and domain = None
       and filters = None and intelligence_filters = None and name = "''memory_bank''"
       and client = example_index and doms = "[]" and k = 5 and en = True]
  show ?thesis
  proof (intro conjI)
    show "create_or_load_collection example_searcher ''memory_bank''
        = Inr (example_searcher\<lparr>collection := Some []\<rparr>)"
      by (rule ev)
    show "collection (example_searcher\<lparr>collection := Some []\<rparr>) \<noteq> None"
      using before ev by blast
    show "add_chunks example_searcher [example_chunk ''a'' ''x''] [Some [1]]
        = Inl CollectionNotInitialized"
      using before none by blast
    show "add_chunks (example_searcher\<lparr>collection := Some []\<rparr>) [example_chunk ''a'' ''x'']
        [Some [1]] \<noteq> Inl CollectionNotInitialized"
      using after by simp
    show "search example_searcher (py_str ''x'') None None None = Inl CollectionNotInitialized"
      using before none by blast
    show "search (example_searcher\<lparr>collection := Some []\<rparr>) (py_str ''x'') None None None
        \<noteq> Inl CollectionNotInitialized"
      using after by simp
  qed
qed

section \<open>Words and whitespace\<close>

lemma split_ws_append_space:
  "is_space c \<Longrightarrow> split_ws cur (xs @ c # ys) = split_ws cur xs @ split_ws [] ys"
  by (induction xs arbitrary: cur) simp_all

lemma split_ws_word:
  "\<forall>c \<in> set w. \<not> is_space c \<Longrightarrow> split_ws cur w = (if cur @ w = [] then [] else [cur @ w])"
  by (induction w arbitrary: cur) simp_all

lemma split_ws_proper:
  "\<forall>c \<in> set cur. \<not> is_space c \<Longrightarrow> w \<in> set (split_ws cur s) \<Longrightarrow>
   w \<noteq> [] \<and> (\<forall>c \<in> set w. \<not> is_space c)"
proof (induction s arbitrary: cur)
  case Nil
  then show ?case
    by (cases "cur = []") simp_all
next
  case (Cons a s)
  show ?case
  proof (cases "is_space a")
    case False
    then have "w \<in> set (split_ws (cur @ [a]) s)"
      using Cons.prems(2) by simp
    moreover have "\<forall>c \<in> set (cur @ [a]). \<not> is_space c"
      using Cons.prems(1) False by simp
    ultimately show ?thesis
      by (rule Cons.IH [rotated])
  next
    case True
    show ?thesis
    proof (cases "cur = []")
      case True
      then have "w \<in> set (split_ws [] s)"
        using Cons.prems(2) \<open>is_space a\<close> by simp
      then show ?thesis
        by (rule Cons.IH [rotated]) simp
    next
      case False
      then have "w = cur \<or> w \<in> set (split_ws [] s)"
        using Cons.prems(2) \<open>is_space a\<close> by simp
      then show ?thesis
      proof
        assume "w = cur"
        then show ?thesis
          using False Cons.prems(1) by simp
      next
        assume "w \<in> set (split_ws [] s)"
        then show ?thesis
          by (rule Cons.IH [rotated]) simp
      qed
    qed
  qed
qed

lemma py_split_proper:
  "w \<in> set (py_split s) \<Longrightarrow> w \<noteq> [] \<and> (\<forall>c \<in> set w. \<not> is_space c)"
  using split_ws_proper [of "[]" w s] by (simp add: py_split_def)

lemma split_ws_empty: "split_ws cur s = [] \<longleftrightarrow> cur = [] \<and> (\<forall>c \<in> set s. is_space c)"
  by (induction s arbitrary: cur) auto

lemma py_split_empty: "py_split s = [] \<longleftrightarrow> (\<forall>c \<in> set s. is_space c)"
  by (simp add: py_split_def split_ws_empty)

lemma all_dropWhile: "(\<forall>x \<in> set (dropWhile P s). P x) \<longleftrightarrow> (\<forall>x \<in> set s. P x)"
  by (induction s) auto

lemma py_strip_empty: "py_strip s = [] \<longleftrightarrow> (\<forall>c \<in> set s. is_space c)"
proof -
  have "py_strip s = [] \<longleftrightarrow> dropWhile is_space (rev (dropWhile is_space s)) = []"
    by (simp only: py_strip_def rev_is_Nil_conv)
  also have "\<dots> \<longleftrightarrow> (\<forall>x \<in> set (rev (dropWhile is_space s)). is_space x)"
    by (rule dropWhile_eq_Nil_conv)
  also have "\<dots> \<longleftrightarrow> (\<forall>x \<in> set (dropWhile is_space s). is_space x)"
    by (simp only: set_rev)
  also have "\<dots> \<longleftrightarrow> (\<forall>x \<in> set s. is_space x)"
    by (rule all_dropWhile)
  finally show ?thesis .
qed

lemma is_space_blank: "is_space 32" and is_space_NL: "is_space NL"
  by (simp_all add: is_space_def NL_def)

lemma py_str_blank: "py_str '' '' = [32]"
  by (simp add: py_str_def code_point_def)

lemma py_split_join_blank:
  "\<forall>w \<in> set ws. w \<noteq> [] \<and> (\<forall>c \<in> set w. \<not> is_space c) \<Longrightarrow>
   py_split (py_join [32] ws) = ws"
proof (induction "[32::nat]" ws rule: py_join.induct)
  case 1
  then show ?case by (simp add: py_split_def)
next
  case (2 x)
  then show ?case by (simp add: py_split_def split_ws_word)
next
  case (3 x y ys)
  have "py_split (py_join [32] (x # y # ys)) = split_ws [] x @ split_ws [] (py_join [32] (y # ys))"
    using split_ws_append_space [OF is_space_blank, of "[]" x "py_join [32] (y # ys)"]
    by (simp add: py_split_def)
  also have "split_ws [] x = [x]"
    using 3(2) by (simp add: split_ws_word)
  also have "split_ws [] (py_join [32] (y # ys)) = y # ys"
    using 3 by (simp add: py_split_def)
  finally show ?case by simp
qed


section \<open>Windows\<close>

lemma py_slice_window:
  assumes "0 \<le> start" "0 \<le> m"
  shows "py_slice words start (window_end m words start) = take (nat m) (drop (nat start) words)"
proof -
  have a: "py_index (length words) start = min (nat start) (length words)"
    using assms by (simp add: py_index_def)
  have b: "py_index (length words) (window_end m words start)
      = min (nat start + nat m) (length words)"
    using assms by (auto simp: py_index_def window_end_def min_def nat_add_distrib)
  show ?thesis
    unfolding py_slice_def Let_def a b
    by (cases "nat start \<le> length words") (simp_all add: min_def)
qed

lemma windows_Nil [simp]: "windows m ov [] = []"
  by (simp add: windows.simps)

lemma window_loop_windows:
  assumes "0 \<le> ov" "ov < m"
  shows "0 \<le> start \<Longrightarrow>
    window_loop render m ov words start chunks
      = Some (chunks @ map render (windows (nat m) (nat ov) (drop (nat start) words)))"
proof (induction "length words - nat start" arbitrary: start chunks rule: less_induct)
  case less
  show ?case
  proof (cases "start < int (length words)")
    case False
    then have "drop (nat start) words = []"
      using less.prems by simp
    with False show ?thesis
      by (subst window_loop.simps) simp
  next
    case True
    let ?xs = "drop (nat start) words"
    have xs: "?xs \<noteq> []" "length ?xs = length words - nat start"
      using True less.prems by simp_all
    have sl: "py_slice words start (window_end m words start) = take (nat m) ?xs"
      using py_slice_window [of start m words] less.prems assms by simp
    show ?thesis
    proof (cases "length ?xs \<le> nat m")
      case le: True
      then have e: "window_end m words start = int (length words)"
        using True less.prems assms by (auto simp: window_end_def min_def)
      then have n: "next_start m ov words start = int (length words)"
        by (simp add: next_start_def)
      have w: "windows (nat m) (nat ov) ?xs = [?xs]"
        using xs(1) le assms by (subst windows.simps) simp
      have "window_loop render m ov words start chunks
          = window_loop render m ov words (int (length words)) (chunks @ [render (take (nat m) ?xs)])"
        using True by (subst window_loop.simps) (simp add: n sl)
      also have "\<dots> = Some (chunks @ [render (take (nat m) ?xs)])"
        by (subst window_loop.simps) simp
      finally show ?thesis
        using le by (simp add: w)
    next
      case gt: False
      then have e: "window_end m words start = start + m"
        using True less.prems assms xs(2) by (auto simp: window_end_def min_def)
      then have lt: "start + m < int (length words)"
        using gt xs(2) less.prems assms by linarith
      then have n: "next_start m ov words start = start + m - ov"
        using e by (simp add: next_start_def)
      have w: "windows (nat m) (nat ov) ?xs
          = take (nat m) ?xs # windows (nat m) (nat ov) (drop (nat m - nat ov) ?xs)"
        using xs(1) gt assms by (subst windows.simps) simp
      have d: "drop (nat (start + m - ov)) words = drop (nat m - nat ov) ?xs"
      proof -
        have "nat (start + m - ov) = (nat m - nat ov) + nat start"
          using less.prems assms by linarith
        then show ?thesis by simp
      qed
      have "length words - nat (start + m - ov) < length words - nat start"
        using lt less.prems assms by linarith
      from less.hyps [OF this, of "chunks @ [render (take (nat m) ?xs)]"]
      have "window_loop render m ov words (start + m - ov) (chunks @ [render (take (nat m) ?xs)])
          = Some ((chunks @ [render (take (nat m) ?xs)])
                  @ map render (windows (nat m) (nat ov) (drop (nat (start + m - ov)) words)))"
        using less.prems assms by simp
      moreover have "window_loop render m ov words start chunks
          = window_loop render m ov words (start + m - ov) (chunks @ [render (take (nat m) ?xs)])"
        using True by (subst window_loop.simps) (simp add: n sl)
      ultimately show ?thesis
        by (simp add: w d)
    qed
  qed
qed


lemma windows_props:
  "ov < m \<Longrightarrow>
   (xs \<noteq> [] \<longrightarrow> windows m ov xs \<noteq> [])
   \<and> (\<forall>w \<in> set (windows m ov xs). w \<noteq> [] \<and> length w \<le> m \<and> set w \<subseteq> set xs)"
proof (induction m ov xs rule: windows.induct)
  case (1 m ov xs)
  show ?case
  proof (cases "xs = []")
    case True
    then show ?thesis by simp
  next
    case ne: False
    show ?thesis
    proof (cases "length xs \<le> m")
      case True
      then show ?thesis
        using ne 1(2) by (subst (1 2) windows.simps) simp
    next
      case False
      have w: "windows m ov xs = take m xs # windows m ov (drop (m - ov) xs)"
        using ne False 1(2) by (subst windows.simps) simp
      have "\<forall>w \<in> set (windows m ov (drop (m - ov) xs)).
              w \<noteq> [] \<and> length w \<le> m \<and> set w \<subseteq> set (drop (m - ov) xs)"
        using 1(1) ne False 1(2) by simp
      moreover have "set (drop (m - ov) xs) \<subseteq> set xs" "set (take m xs) \<subseteq> set xs"
        by (auto dest: in_set_dropD in_set_takeD)
      moreover have "take m xs \<noteq> []"
        using ne 1(2) by (cases xs) auto
      ultimately show ?thesis
        unfolding w by auto
    qed
  qed
qed



lemma window_loop_diverges:
  assumes "window_loop render m ov words start chunks = Some y"
  shows "\<not> (m \<le> ov \<and> start \<le> 0 \<and> m < int (length words) \<and> words \<noteq> [])"
proof (rule window_loop.raw_induct
    [where P = "\<lambda>render m ov words start chunks y.
                  \<not> (m \<le> ov \<and> start \<le> 0 \<and> m < int (length words) \<and> words \<noteq> [])",
     OF _ assms])
  fix f :: "('a list \<Rightarrow> pystr) \<Rightarrow> int \<Rightarrow> int \<Rightarrow> 'a list \<Rightarrow> int \<Rightarrow> pystr list \<Rightarrow> pystr list option"
    and render m ov words start chunks y
  assume IH: "\<And>render m ov words start chunks y.
      f render m ov words start chunks = Some y \<Longrightarrow>
      \<not> (m \<le> ov \<and> start \<le> 0 \<and> m < int (length words) \<and> words \<noteq> [])"
    and step: "(if start < int (length words)
      then f render m ov words (next_start m ov words start)
            (chunks @ [render (py_slice words start (window_end m words start))])
      else Some chunks) = Some y"
  show "\<not> (m \<le> ov \<and> start \<le> 0 \<and> m < int (length words) \<and> words \<noteq> [])"
  proof
    assume inv: "m \<le> ov \<and> start \<le> 0 \<and> m < int (length words) \<and> words \<noteq> []"
    then have lt: "start < int (length words)"
      by (cases words) auto
    have e: "window_end m words start = start + m"
      using inv by (auto simp: window_end_def min_def)
    then have n: "next_start m ov words start = start + m - ov"
      using inv by (simp add: next_start_def)
    from step lt have "f render m ov words (start + m - ov)
        (chunks @ [render (py_slice words start (window_end m words start))]) = Some y"
      by (simp add: n)
    from IH [OF this] inv show False
      by simp
  qed
qed

text \<open>
  Claim C10, as the code has it. For every text that holds at least one
  non-whitespace character and every \<open>0 \<le> overlap < max_chunk_size\<close>,
  \<open>_chunk_text_by_words\<close> returns, and returns a non-empty list of chunks of at most
  \<open>max_chunk_size\<close> words each. After a window that does not reach the end of the
  words, the start of the next window is beyond the start of this one exactly when
  \<open>overlap < max_chunk_size\<close>; and when \<open>overlap \<ge> max_chunk_size\<close> and the text has more
  than \<open>max_chunk_size\<close> words, the loop does not return. A text without any word, empty
  or of whitespace only, gives the empty list, whatever the parameters.
\<close>

theorem chunk_text_by_words_windows:
  "(py_split text \<noteq> [] \<and> 0 \<le> overlap \<and> overlap < max_chunk_size \<longrightarrow>
      (\<exists>chunks. chunk_text_by_words text max_chunk_size overlap = Some chunks
          \<and> chunks \<noteq> []
          \<and> (\<forall>c \<in> set chunks. int (length (py_split c)) \<le> max_chunk_size)))
   \<and> (start + max_chunk_size < int (length words) \<longrightarrow>
        (start < next_start max_chunk_size overlap words start \<longleftrightarrow> overlap < max_chunk_size))
   \<and> (py_split text \<noteq> [] \<and> max_chunk_size \<le> overlap
        \<and> max_chunk_size < int (length (py_split text)) \<longrightarrow>
        chunk_text_by_words text max_chunk_size overlap = None)
   \<and> (py_split text = [] \<longrightarrow> chunk_text_by_words text max_chunk_size overlap = Some [])
   \<and> (py_split text = [] \<longleftrightarrow> (\<forall>c \<in> set text. is_space c))"
proof (intro conjI impI)
  assume a: "py_split text \<noteq> [] \<and> 0 \<le> overlap \<and> overlap < max_chunk_size"
  then have ne: "text \<noteq> []" "py_strip text \<noteq> []"
    by (auto simp: py_split_empty py_strip_empty)
  show "\<exists>chunks. chunk_text_by_words text max_chunk_size overlap = Some chunks
          \<and> chunks \<noteq> []
          \<and> (\<forall>c \<in> set chunks. int (length (py_split c)) \<le> max_chunk_size)"
  proof (cases "int (length (py_split text)) \<le> max_chunk_size")
    case True
    then show ?thesis
      using ne by (simp add: chunk_text_by_words_def)
  next
    case False
    let ?ws = "windows (nat max_chunk_size) (nat overlap) (py_split text)"
    have lt: "nat overlap < nat max_chunk_size"
      using a by simp
    have eq: "chunk_text_by_words text max_chunk_size overlap = Some (map (py_join [32]) ?ws)"
      using ne False a
        window_loop_windows [of overlap max_chunk_size 0 "py_join [32]" "py_split text" "[]"]
      by (simp add: chunk_text_by_words_def py_str_blank)
    from windows_props [OF lt, of "py_split text"] a
    have p: "?ws \<noteq> []"
      "\<forall>w \<in> set ?ws. w \<noteq> [] \<and> length w \<le> nat max_chunk_size \<and> set w \<subseteq> set (py_split text)"
      by auto
    have "int (length (py_split (py_join [32] w))) \<le> max_chunk_size" if "w \<in> set ?ws" for w
    proof -
      have "\<forall>v \<in> set w. v \<noteq> [] \<and> (\<forall>c \<in> set v. \<not> is_space c)"
        using p(2) that py_split_proper by blast
      then have "py_split (py_join [32] w) = w"
        by (rule py_split_join_blank)
      then show ?thesis
        using p(2) that a by auto
    qed
    with eq p(1) show ?thesis
      by auto
  qed
next
  assume "start + max_chunk_size < int (length words)"
  then show "start < next_start max_chunk_size overlap words start \<longleftrightarrow> overlap < max_chunk_size"
    by (auto simp: next_start_def window_end_def min_def)
next
  assume a: "py_split text \<noteq> [] \<and> max_chunk_size \<le> overlap
        \<and> max_chunk_size < int (length (py_split text))"
  then have ne: "text \<noteq> []" "py_strip text \<noteq> []"
    by (auto simp: py_split_empty py_strip_empty)
  have "window_loop (py_join [32]) max_chunk_size overlap (py_split text) 0 [] = None"
  proof (cases "window_loop (py_join [32]) max_chunk_size overlap (py_split text) 0 []")
    case None
    then show ?thesis .
  next
    case (Some y)
    from window_loop_diverges [OF this] a show ?thesis
      by simp
  qed
  then show "chunk_text_by_words text max_chunk_size overlap = None"
    using ne a by (simp add: chunk_text_by_words_def py_str_blank)
next
  assume "py_split text = []"
  then have "py_strip text = []"
    by (simp add: py_split_empty py_strip_empty)
  then show "chunk_text_by_words text max_chunk_size overlap = Some []"
    by (simp add: chunk_text_by_words_def)
next
  show "py_split text = [] \<longleftrightarrow> (\<forall>c \<in> set text. is_space c)"
    by (rule py_split_empty)
qed

text \<open>
  The theorem on the text \<open>a b c d\<close>: with windows of two words that overlap by one the
  function returns three chunks, and with an overlap of two it does not return. A text
  of one no-break space, \<open>U+00A0\<close>, has no word and gives no chunk.
\<close>

theorem chunk_text_by_words_windows_witness:
  "py_split (py_str ''a b c d'') \<noteq> []
   \<and> (\<exists>chunks. chunk_text_by_words (py_str ''a b c d'') 2 1 = Some chunks \<and> chunks \<noteq> []
         \<and> (\<forall>c \<in> set chunks. int (length (py_split c)) \<le> 2))
   \<and> 0 < next_start 2 1 [py_str ''a'', py_str ''b'', py_str ''c'', py_str ''d''] 0
   \<and> chunk_text_by_words (py_str ''a b c d'') 2 2 = None
   \<and> py_split [0xA0] = []
   \<and> chunk_text_by_words [0xA0] 2 1 = Some []"
proof -
  have ws: "py_split (py_str ''a b c d'')
      = [py_str ''a'', py_str ''b'', py_str ''c'', py_str ''d'']"
    by (simp add: py_split_def is_space_def py_str_def code_point_def)
  have sp: "py_split [0xA0] = []"
    by (simp add: py_split_def is_space_def)
  note one = chunk_text_by_words_windows
    [of "py_str ''a b c d''" 1 2 0 "[py_str ''a'', py_str ''b'', py_str ''c'', py_str ''d'']"]
  note two = chunk_text_by_words_windows
    [of "py_str ''a b c d''" 2 2 0 "[py_str ''a'', py_str ''b'', py_str ''c'', py_str ''d'']"]
  note three = chunk_text_by_words_windows [of "[0xA0]" 1 2 0 "[]"]
  show ?thesis
  proof (intro conjI)
    show "py_split (py_str ''a b c d'') \<noteq> []"
      by (simp add: ws)
    show "\<exists>chunks. chunk_text_by_words (py_str ''a b c d'') 2 1 = Some chunks \<and> chunks \<noteq> []
         \<and> (\<forall>c \<in> set chunks. int (length (py_split c)) \<le> 2)"
      using one by (simp add: ws)
    show "0 < next_start 2 1 [py_str ''a'', py_str ''b'', py_str ''c'', py_str ''d''] 0"
      using one by simp
    show "chunk_text_by_words (py_str ''a b c d'') 2 2 = None"
      using two by (simp add: ws)
    show "py_split [0xA0] = []"
      by (rule sp)
    show "chunk_text_by_words [0xA0] 2 1 = Some []"
      using three sp by blast
  qed
qed

text \<open>
  A text of one blank is not empty, and \<open>0 \<le> 1 < 3\<close>, yet the list of chunks is empty;
  so it is for a text of one no-break space.
\<close>

theorem chunk_text_by_words_windows_counterexample:
  "py_str '' '' \<noteq> [] \<and> (0::int) \<le> 1 \<and> (1::int) < 3
   \<and> chunk_text_by_words (py_str '' '') 3 1 = Some []
   \<and> [0xA0] \<noteq> ([]::pystr) \<and> chunk_text_by_words [0xA0] 3 1 = Some []"
  by (simp add: chunk_text_by_words_def py_strip_def is_space_def py_str_def code_point_def)

section \<open>Coverage of small files\<close>





















end
